theory Spec2Isabelle
  imports Main "HOL-Library.Word"
begin

unbundle bit_operations_syntax

section \<open>The C library functions the compiler relies on\<close>

text \<open>
  C strings are modelled as \<open>string\<close> (a list of bytes without the terminating NUL).
  \<open>strcmp a b == 0\<close> is equality, \<open>strncmp line p n == 0\<close> with \<open>n = strlen p\<close> is
  \<open>starts_with p line\<close>, \<open>strchr s c != NULL\<close> is \<open>c \<in> set s\<close>.
\<close>

definition NL :: char where
  "NL = CHR 0x0A"

definition DQUOTE :: char where
  "DQUOTE = CHR 0x22"

definition BACKSLASH :: char where
  "BACKSLASH = CHR 0x5C"

definition NUL :: char where
  "NUL = CHR 0x00"

definition isspace :: "char \<Rightarrow> bool" where
  "isspace c = (c = CHR 0x20 \<or> c = CHR 0x09 \<or> c = CHR 0x0A \<or> c = CHR 0x0B \<or> c = CHR 0x0C \<or> c = CHR 0x0D)"

definition isdigit :: "char \<Rightarrow> bool" where
  "isdigit c = (48 \<le> (of_char c :: nat) \<and> (of_char c :: nat) \<le> 57)"

definition cstr :: "string \<Rightarrow> string" where
  "cstr buf = takeWhile (\<lambda>c. c \<noteq> NUL) buf"

definition starts_with :: "string \<Rightarrow> string \<Rightarrow> bool" where
  "starts_with p line = (take (length p) line = p)"

text \<open>\<open>strstr\<close> returns the suffix that begins at the first occurrence of the needle.\<close>

fun strstr :: "string \<Rightarrow> string \<Rightarrow> string option" where
  "strstr [] needle = (if needle = [] then Some [] else None)"
| "strstr (c # cs) needle =
     (if take (length needle) (c # cs) = needle then Some (c # cs) else strstr cs needle)"

text \<open>\<open>trim\<close> (compiler_stub.c, 203-215): skip leading white space, cut trailing white space.\<close>

definition trim :: "string \<Rightarrow> string" where
  "trim line = rev (dropWhile isspace (rev (dropWhile isspace line)))"

text \<open>\<open>strncpy(dst, src, 127); dst[127] = 0\<close> into a 128-byte buffer.\<close>

definition strncpy127 :: "string \<Rightarrow> string" where
  "strncpy127 src = take 127 src"

subsection \<open>Decimal integers: the subject sequence of \<open>%d\<close> and of \<open>strtoll(.., 10)\<close>\<close>

definition digits_value :: "string \<Rightarrow> int" where
  "digits_value ds = foldl (\<lambda>a c. 10 * a + (of_char c - 48)) 0 ds"

text \<open>
  White space, an optional sign, then at least one decimal digit. The result is the
  mathematical value and the unread rest of the input; \<open>None\<close> when no digit is found.
\<close>

definition scan_int :: "string \<Rightarrow> (int \<times> string) option" where
  "scan_int s =
     (let s1 = dropWhile isspace s;
          neg = (take 1 s1 = ''-'');
          s2 = (if take 1 s1 = ''-'' \<or> take 1 s1 = ''+'' then drop 1 s1 else s1);
          ds = takeWhile isdigit s2
      in if ds = [] then None
         else Some ((if neg then - digits_value ds else digits_value ds), drop (length ds) s2))"

text \<open>
  \<open>strtoll\<close> saturates at the bounds of \<open>long long\<close>; \<open>None\<close> stands for
  \<open>endptr == expr\<close> (no conversion), otherwise the rest is what \<open>endptr\<close> points to.
\<close>

definition LLONG_MAX :: int where
  "LLONG_MAX = 2 ^ 63 - 1"

definition LLONG_MIN :: int where
  "LLONG_MIN = - (2 ^ 63)"

definition strtoll :: "string \<Rightarrow> (int \<times> string) option" where
  "strtoll s =
     (case scan_int s of
        None \<Rightarrow> None
      | Some (v, rest) \<Rightarrow> Some (max LLONG_MIN (min LLONG_MAX v), rest))"

text \<open>
  The bounds of \<open>long\<close>, 64 bits wide: \<open>%d\<close> converts its digits as \<open>strtol\<close> does,
  which saturates at them.
\<close>

definition LONG_MAX :: int where
  "LONG_MAX = 2 ^ 63 - 1"

definition LONG_MIN :: int where
  "LONG_MIN = - (2 ^ 63)"

subsection \<open>\<open>sscanf\<close>\<close>

text \<open>
  A format is a list of directives: white space (matches any amount of white space,
  also none), an ordinary character (must match), \<open>%N[^c]\<close> (a non-empty run of at most
  \<open>N\<close> characters other than \<open>c\<close>) and \<open>%d\<close>. The result is the list of values
  assigned before the first directive that fails; its length is what \<open>sscanf\<close>
  returns (the source only compares the count with the number of conversions, so
  \<open>EOF\<close> and \<open>0\<close> need not be told apart). Directives after the last conversion
  cannot change the count. \<open>%d\<close> yields the value of the digits saturated at the
  bounds of \<open>long\<close>, as the C library's conversion through \<open>strtol\<close> does; where
  the source stores it in an \<open>int\<close> the model keeps its low 32 bits (C leaves a
  value outside the range of \<open>int\<close> undefined there; this is what the library does).
\<close>

datatype scan_directive = WS | LIT char | NOTSET nat char | DEC

datatype scan_value = SV string | IV int

fun sscanf :: "string \<Rightarrow> scan_directive list \<Rightarrow> scan_value list" where
  "sscanf s [] = []"
| "sscanf s (WS # fmt) = sscanf (dropWhile isspace s) fmt"
| "sscanf s (LIT c # fmt) =
     (case s of [] \<Rightarrow> [] | x # xs \<Rightarrow> if x = c then sscanf xs fmt else [])"
| "sscanf s (NOTSET w c # fmt) =
     (let tok = take w (takeWhile (\<lambda>x. x \<noteq> c) s)
      in if tok = [] then [] else SV tok # sscanf (drop (length tok) s) fmt)"
| "sscanf s (DEC # fmt) =
     (case scan_int s of
        None \<Rightarrow> []
      | Some (v, rest) \<Rightarrow> IV (max LONG_MIN (min LONG_MAX v)) # sscanf rest fmt)"

definition lit :: "string \<Rightarrow> scan_directive list" where
  "lit s = map LIT s"

text \<open>The count tests of the source: \<open>sscanf(..) == 1\<close>, \<open>== 2\<close>, \<open>== 3\<close>.\<close>

definition scan1_str :: "string \<Rightarrow> scan_directive list \<Rightarrow> string option" where
  "scan1_str s fmt = (case sscanf s fmt of [SV a] \<Rightarrow> Some a | _ \<Rightarrow> None)"

definition scan1_int :: "string \<Rightarrow> scan_directive list \<Rightarrow> int option" where
  "scan1_int s fmt = (case sscanf s fmt of [IV v] \<Rightarrow> Some v | _ \<Rightarrow> None)"

definition scan2_str :: "string \<Rightarrow> scan_directive list \<Rightarrow> (string \<times> string) option" where
  "scan2_str s fmt = (case sscanf s fmt of [SV a, SV b] \<Rightarrow> Some (a, b) | _ \<Rightarrow> None)"

definition scan2_str_int :: "string \<Rightarrow> scan_directive list \<Rightarrow> (string \<times> int) option" where
  "scan2_str_int s fmt = (case sscanf s fmt of [SV a, IV v] \<Rightarrow> Some (a, v) | _ \<Rightarrow> None)"

definition scan3_str :: "string \<Rightarrow> scan_directive list \<Rightarrow> (string \<times> string \<times> string) option" where
  "scan3_str s fmt = (case sscanf s fmt of [SV a, SV b, SV c] \<Rightarrow> Some (a, b, c) | _ \<Rightarrow> None)"

section \<open>The program IR (compiler_stub.c, 15-69)\<close>

type_synonym int32 = "32 word"

record string_binding =
  sb_name :: string
  sb_literal :: string

datatype program_kind = PROGRAM_NONE | PROGRAM_STRING | PROGRAM_LOOP_SUM | PROGRAM_PI_TEST

record loop_ir =
  accumulator :: string
  accumulator_init :: int32
  counter :: string
  counter_init :: int32
  loop_exit_var :: string
  loop_return_var :: string

record pi_ir =
  numerator_var :: string
  numerator_value :: int32
  denominator_var :: string
  denominator_value :: int32
  scale_var :: string
  scale_value :: int32
  temp_var :: string
  temp_lhs :: string
  temp_rhs :: string
  result_var :: string
  result_lhs :: string
  result_rhs :: string
  pi_exit_var :: string
  pi_return_var :: string

text \<open>
  \<open>bindings\<close> holds the first \<open>string_binding_count\<close> entries of the array; the count
  is the length of the list.
\<close>

record program_ir =
  kind :: program_kind
  bindings :: "string_binding list"
  print_binding_index :: int
  print_arg :: string
  have_print :: bool
  exit_value :: int32
  return_value :: int32
  have_exit :: bool
  have_return :: bool
  loop :: loop_ir
  pi :: pi_ir

definition MAX_STRING_BINDINGS :: nat where
  "MAX_STRING_BINDINGS = 8"

definition zero_loop_ir :: loop_ir where
  "zero_loop_ir = \<lparr>accumulator = [], accumulator_init = 0, counter = [], counter_init = 0,
     loop_exit_var = [], loop_return_var = []\<rparr>"

definition zero_pi_ir :: pi_ir where
  "zero_pi_ir = \<lparr>numerator_var = [], numerator_value = 0, denominator_var = [],
     denominator_value = 0, scale_var = [], scale_value = 0, temp_var = [], temp_lhs = [],
     temp_rhs = [], result_var = [], result_lhs = [], result_rhs = [], pi_exit_var = [],
     pi_return_var = []\<rparr>"

text \<open>\<open>load_program_ir\<close>: \<open>memset(ir, 0, sizeof *ir); ir->print_binding_index = -1\<close>.\<close>

definition initial_ir :: program_ir where
  "initial_ir = \<lparr>kind = PROGRAM_NONE, bindings = [], print_binding_index = - 1,
     print_arg = [], have_print = False, exit_value = 0, return_value = 0,
     have_exit = False, have_return = False, loop = zero_loop_ir, pi = zero_pi_ir\<rparr>"

text \<open>Every \<open>return 1\<close> of the source, named after the message it prints.\<close>

datatype error =
    DuplicateStringBinding | TooManyStringBindings
  | DuplicateIntBinding | TooManyIntBindings
  | MalformedExit | MalformedReturn
  | ExpectedWhileLoop | LoopBodyTooShort
  | ExpectedAccumulatorAssignment | ExpectedCounterDecrement
  | AccumulatorNotSameVariable | AccumulatorMustAddCounter
  | DecrementMustTargetCounter | DecrementMustSubtractOne
  | UndefinedLoopVariable
  | MultipleMultiplication | MalformedMultiplication
  | MultipleDivision | MalformedDivision
  | UnsupportedInitializer | TooManyPiBindings
  | PiMalformedExit | PiMalformedReturn
  | PiRequiresMulDiv | PiMissingExitReturn | PiExitReturnMismatch
  | PiExitNotResult | PiResultNotDividingTemp | PiUndefinedBindings
  | InputTooLarge | UnsupportedProgramShape
  | ExpectedStringBinding | ExpectedPrint | ExpectedExitReturn
  | PrintArgUnresolved | PrintArgMismatch | ExitReturnMismatch | OnlyExitCodeZero
  | LoopMissingAccumulatorCounter | LoopExitReturnNotAccumulator
  | PiMissingBindings | DenominatorIsZero | PiExitReturnNotResult
  | UnrecognisedKind
  | ImmediateOutOfRange | PrintBindingNotResolved | UnsupportedKindForEmission
  | BytesMissing0x | InvalidHexDigit | OddHexDigits | BytesNoData
  | AsciiMissingOpenQuote | AsciiIncompleteEscape | AsciiUnsupportedEscape
  | AsciiMissingCloseQuote | PadMissingValue | PadInvalidValue

section \<open>The String recognizer (compiler_stub.c, 175-276)\<close>

definition find_string_binding_index :: "program_ir \<Rightarrow> string \<Rightarrow> int" where
  "find_string_binding_index ir nm =
     (let i = length (takeWhile (\<lambda>b. sb_name b \<noteq> nm) (bindings ir))
      in if i < length (bindings ir) then int i else - 1)"

definition add_string_binding :: "program_ir \<Rightarrow> string \<Rightarrow> string \<Rightarrow> error + program_ir" where
  "add_string_binding ir nm literal =
     (if find_string_binding_index ir nm \<ge> 0 then Inl DuplicateStringBinding
      else if length (bindings ir) \<ge> MAX_STRING_BINDINGS then Inl TooManyStringBindings
      else Inr (ir\<lparr>bindings := bindings ir @
                  [\<lparr>sb_name = take 127 nm, sb_literal = take 1023 literal\<rparr>]\<rparr>))"

text \<open>\<open>"let %127[^:]: string = \"%1023[^\"]\";"\<close>\<close>

definition fmt_let_string :: "scan_directive list" where
  "fmt_let_string = lit ''let'' @ [WS, NOTSET 127 (CHR '':'')] @ lit '':'' @ [WS] @
     lit ''string'' @ [WS] @ lit ''='' @ [WS, LIT DQUOTE, NOTSET 1023 DQUOTE, LIT DQUOTE] @
     lit '';''"

text \<open>\<open>"request service exit(%d);"\<close>\<close>

definition fmt_exit_int :: "scan_directive list" where
  "fmt_exit_int = lit ''request'' @ [WS] @ lit ''service'' @ [WS] @ lit ''exit('' @ [DEC] @
     lit '');''"

text \<open>\<open>"return %d;"\<close>\<close>

definition fmt_return_int :: "scan_directive list" where
  "fmt_return_int = lit ''return'' @ [WS, DEC] @ lit '';''"

text \<open>
  The argument of the print request: the text between the first \<open>(\<close> and the last
  \<open>)\<close>, when \<open>close > open + 1\<close>; at most 127 characters of it are copied, then
  trimmed.
\<close>

definition print_argument :: "string \<Rightarrow> string option" where
  "print_argument line =
     (if CHR ''('' \<in> set line \<and> CHR '')'' \<in> set line then
        (let open = length (takeWhile (\<lambda>c. c \<noteq> CHR ''('') line);
             close = length line - 1 - length (takeWhile (\<lambda>c. c \<noteq> CHR '')'') (rev line))
         in if close > open + 1 then
              (let len = close - open - 1;
                   len' = (if len \<ge> 128 then 127 else len)
               in Some (trim (take len' (drop (open + 1) line))))
            else None)
      else None)"

text \<open>The body of the \<open>for\<close> loop of \<open>parse_string_program\<close>, for one line.\<close>

definition parse_string_line :: "program_ir \<Rightarrow> string \<Rightarrow> error + program_ir" where
  "parse_string_line ir line =
     (case (if starts_with ''let '' line then scan2_str line fmt_let_string else None) of
        Some (nm, literal) \<Rightarrow> add_string_binding ir (trim nm) literal
      | None \<Rightarrow>
     (case (if starts_with ''request service print'' line then print_argument line else None) of
        Some arg \<Rightarrow>
          (let ir1 = ir\<lparr>print_arg := arg, have_print := True\<rparr>;
               idx = find_string_binding_index ir1 arg
           in Inr (if idx \<ge> 0 then ir1\<lparr>print_binding_index := idx\<rparr> else ir1))
      | None \<Rightarrow>
     (case (if starts_with ''request service exit'' line then scan1_int line fmt_exit_int else None) of
        Some v \<Rightarrow> Inr (ir\<lparr>exit_value := word_of_int v, have_exit := True\<rparr>)
      | None \<Rightarrow>
     (case (if starts_with ''return'' line then scan1_int line fmt_return_int else None) of
        Some v \<Rightarrow> Inr (ir\<lparr>return_value := word_of_int v, have_return := True\<rparr>)
      | None \<Rightarrow> Inr ir))))"

fun parse_string_lines :: "string list \<Rightarrow> program_ir \<Rightarrow> error + program_ir" where
  "parse_string_lines [] ir = Inr ir"
| "parse_string_lines (line # rest) ir =
     (case parse_string_line ir line of
        Inl e \<Rightarrow> Inl e
      | Inr ir' \<Rightarrow> parse_string_lines rest ir')"

definition parse_string_program :: "string list \<Rightarrow> program_ir \<Rightarrow> error + program_ir" where
  "parse_string_program lines ir =
     (case parse_string_lines lines ir of
        Inl e \<Rightarrow> Inl e
      | Inr ir' \<Rightarrow> Inr (ir'\<lparr>kind := PROGRAM_STRING\<rparr>))"

section \<open>The Loop-Sum recognizer (compiler_stub.c, 278-420)\<close>

record int_binding =
  ib_name :: string
  ib_value :: int32

definition find_binding :: "int_binding list \<Rightarrow> string \<Rightarrow> int_binding option" where
  "find_binding bs nm = List.find (\<lambda>b. ib_name b = nm) bs"

text \<open>\<open>"let %127[^:]: int = %d;"\<close>\<close>

definition fmt_let_int :: "scan_directive list" where
  "fmt_let_int = lit ''let'' @ [WS, NOTSET 127 (CHR '':'')] @ lit '':'' @ [WS] @ lit ''int'' @
     [WS] @ lit ''='' @ [WS, DEC] @ lit '';''"

text \<open>\<open>"while %127[^>]> 0 {"\<close>\<close>

definition fmt_while :: "scan_directive list" where
  "fmt_while = lit ''while'' @ [WS, NOTSET 127 (CHR ''>'')] @ lit ''>'' @ [WS] @ lit ''0'' @
     [WS] @ lit ''{''"

text \<open>\<open>"request service exit(%127[^)]);"\<close>\<close>

definition fmt_exit_var :: "scan_directive list" where
  "fmt_exit_var = lit ''request'' @ [WS] @ lit ''service'' @ [WS] @ lit ''exit('' @
     [NOTSET 127 (CHR '')'')] @ lit '');''"

text \<open>\<open>"return %127[^;];"\<close>\<close>

definition fmt_return_var :: "scan_directive list" where
  "fmt_return_var = lit ''return'' @ [WS, NOTSET 127 (CHR '';'')] @ lit '';''"

text \<open>\<open>"%127[^=]= %127[^+]+ %127[^;];"\<close> and \<open>"%127[^=]= %127[^-]- %127[^;];"\<close>\<close>

definition fmt_add :: "scan_directive list" where
  "fmt_add = [NOTSET 127 (CHR ''='')] @ lit ''='' @ [WS, NOTSET 127 (CHR ''+'')] @ lit ''+'' @
     [WS, NOTSET 127 (CHR '';'')] @ lit '';''"

definition fmt_sub :: "scan_directive list" where
  "fmt_sub = [NOTSET 127 (CHR ''='')] @ lit ''='' @ [WS, NOTSET 127 (CHR ''-'')] @ lit ''-'' @
     [WS, NOTSET 127 (CHR '';'')] @ lit '';''"

text \<open>The local variables of \<open>parse_loop_sum_program\<close> and the part of the IR it writes.\<close>

record loop_scan =
  ls_bindings :: "int_binding list"
  ls_loop_start :: int
  ls_loop_var :: string
  ls_loop :: loop_ir

text \<open>The body of the first \<open>for\<close> loop, for line \<open>i\<close>.\<close>

definition parse_loop_line :: "nat \<Rightarrow> loop_scan \<Rightarrow> string \<Rightarrow> error + loop_scan" where
  "parse_loop_line i st line =
     (case (if starts_with ''let '' line \<and> strstr line '': int ='' \<noteq> None
            then scan2_str_int line fmt_let_int else None) of
        Some (nm, v) \<Rightarrow>
          (if find_binding (ls_bindings st) nm \<noteq> None then Inl DuplicateIntBinding
           else if length (ls_bindings st) \<ge> 8 then Inl TooManyIntBindings
           else Inr (st\<lparr>ls_bindings := ls_bindings st @
                      [\<lparr>ib_name = strncpy127 nm, ib_value = word_of_int v\<rparr>]\<rparr>))
      | None \<Rightarrow>
     (if starts_with ''while'' line then
        (case scan1_str line fmt_while of
           Some var \<Rightarrow> Inr (st\<lparr>ls_loop_var := strncpy127 (trim var), ls_loop_start := int i\<rparr>)
         | None \<Rightarrow> Inr st)
      else if starts_with ''request service exit'' line then
        (case scan1_str line fmt_exit_var of
           None \<Rightarrow> Inl MalformedExit
         | Some v \<Rightarrow> Inr (st\<lparr>ls_loop := (ls_loop st)\<lparr>loop_exit_var := trim v\<rparr>\<rparr>))
      else if starts_with ''return'' line then
        (case scan1_str line fmt_return_var of
           None \<Rightarrow> Inl MalformedReturn
         | Some v \<Rightarrow> Inr (st\<lparr>ls_loop := (ls_loop st)\<lparr>loop_return_var := trim v\<rparr>\<rparr>))
      else Inr st))"

fun parse_loop_lines :: "nat \<Rightarrow> string list \<Rightarrow> loop_scan \<Rightarrow> error + loop_scan" where
  "parse_loop_lines i [] st = Inr st"
| "parse_loop_lines i (line # rest) st =
     (case parse_loop_line i st line of
        Inl e \<Rightarrow> Inl e
      | Inr st' \<Rightarrow> parse_loop_lines (Suc i) rest st')"

text \<open>The checks after the loop (352-419).\<close>

definition lower_loop :: "string list \<Rightarrow> loop_scan \<Rightarrow> program_ir \<Rightarrow> error + program_ir" where
  "lower_loop lines st ir =
     (if ls_loop_start st < 0 then Inl ExpectedWhileLoop
      else if ls_loop_start st + 3 \<ge> int (length lines) then Inl LoopBodyTooShort
      else
        (let add_line = lines ! nat (ls_loop_start st + 1);
             sub_line = lines ! nat (ls_loop_start st + 2);
             loop_var = ls_loop_var st
         in case scan3_str add_line fmt_add of
              None \<Rightarrow> Inl ExpectedAccumulatorAssignment
            | Some (add_target, add_lhs, add_rhs) \<Rightarrow>
           (case scan3_str sub_line fmt_sub of
              None \<Rightarrow> Inl ExpectedCounterDecrement
            | Some (sub_target, sub_lhs, sub_rhs) \<Rightarrow>
           (if trim add_target \<noteq> trim add_lhs then Inl AccumulatorNotSameVariable
            else if trim add_rhs \<noteq> loop_var then Inl AccumulatorMustAddCounter
            else if trim sub_target \<noteq> loop_var \<or> trim sub_lhs \<noteq> loop_var
              then Inl DecrementMustTargetCounter
            else if trim sub_rhs \<noteq> ''1'' then Inl DecrementMustSubtractOne
            else
              (case (find_binding (ls_bindings st) (trim add_target),
                     find_binding (ls_bindings st) loop_var) of
                 (Some acc_binding, Some counter_binding) \<Rightarrow>
                   Inr (ir\<lparr>loop := (ls_loop st)\<lparr>
                            accumulator := strncpy127 (trim add_target),
                            accumulator_init := ib_value acc_binding,
                            counter := strncpy127 loop_var,
                            counter_init := ib_value counter_binding\<rparr>,
                          kind := PROGRAM_LOOP_SUM\<rparr>)
               | _ \<Rightarrow> Inl UndefinedLoopVariable)))))"

text \<open>The locals at the start; \<open>ir->loop\<close> is as the caller left it.\<close>

definition loop_scan_init :: "program_ir \<Rightarrow> loop_scan" where
  "loop_scan_init ir =
     \<lparr>ls_bindings = [], ls_loop_start = - 1, ls_loop_var = [], ls_loop = loop ir\<rparr>"

definition parse_loop_sum_program :: "string list \<Rightarrow> program_ir \<Rightarrow> error + program_ir" where
  "parse_loop_sum_program lines ir =
     (case parse_loop_lines 0 lines (loop_scan_init ir) of
        Inl e \<Rightarrow> Inl e
      | Inr st \<Rightarrow> lower_loop lines st ir)"

section \<open>The Pi-Approximation recognizer (compiler_stub.c, 422-571)\<close>

text \<open>\<open>"let %127[^:]: int = %255[^;];"\<close>, \<open>"%127[^*]*%127[^;]"\<close>, \<open>"%127[^/]/%127[^;]"\<close>\<close>

definition fmt_let_expr :: "scan_directive list" where
  "fmt_let_expr = lit ''let'' @ [WS, NOTSET 127 (CHR '':'')] @ lit '':'' @ [WS] @ lit ''int'' @
     [WS] @ lit ''='' @ [WS, NOTSET 255 (CHR '';'')] @ lit '';''"

definition fmt_mul :: "scan_directive list" where
  "fmt_mul = [NOTSET 127 (CHR ''*''), LIT (CHR ''*''), NOTSET 127 (CHR '';'')]"

definition fmt_div :: "scan_directive list" where
  "fmt_div = [NOTSET 127 (CHR ''/''), LIT (CHR ''/''), NOTSET 127 (CHR '';'')]"

record pi_scan =
  ps_bindings :: "int_binding list"
  have_mul :: bool
  have_div :: bool
  ps_pi :: pi_ir

text \<open>
  A \<open>let\<close> line of the Pi recognizer whose \<open>sscanf\<close> matched (436-499): a
  multiplication, a division, or a literal read by \<open>strtoll\<close> and stored as
  \<open>(int)value\<close>.
\<close>

definition parse_pi_let :: "pi_scan \<Rightarrow> string \<Rightarrow> string \<Rightarrow> error + pi_scan" where
  "parse_pi_let st name_buf expr_buf =
     (let nm = trim name_buf; expr = trim expr_buf
      in if CHR ''*'' \<in> set expr then
           (if have_mul st then Inl MultipleMultiplication
            else case scan2_str expr fmt_mul of
                   None \<Rightarrow> Inl MalformedMultiplication
                 | Some (lhs_buf, rhs_buf) \<Rightarrow>
                     Inr (st\<lparr>ps_pi := (ps_pi st)\<lparr>temp_var := strncpy127 nm,
                                temp_lhs := strncpy127 (trim lhs_buf),
                                temp_rhs := strncpy127 (trim rhs_buf)\<rparr>,
                             have_mul := True\<rparr>))
         else if CHR ''/'' \<in> set expr then
           (if have_div st then Inl MultipleDivision
            else case scan2_str expr fmt_div of
                   None \<Rightarrow> Inl MalformedDivision
                 | Some (lhs_buf, rhs_buf) \<Rightarrow>
                     Inr (st\<lparr>ps_pi := (ps_pi st)\<lparr>result_var := strncpy127 nm,
                                result_lhs := strncpy127 (trim lhs_buf),
                                result_rhs := strncpy127 (trim rhs_buf)\<rparr>,
                             have_div := True\<rparr>))
         else
           (case strtoll expr of
              None \<Rightarrow> Inl UnsupportedInitializer
            | Some (v, rest) \<Rightarrow>
                if rest \<noteq> [] then Inl UnsupportedInitializer
                else if length (ps_bindings st) \<ge> 8 then Inl TooManyPiBindings
                else Inr (st\<lparr>ps_bindings := ps_bindings st @
                           [\<lparr>ib_name = strncpy127 nm, ib_value = word_of_int v\<rparr>]\<rparr>)))"

definition parse_pi_line :: "pi_scan \<Rightarrow> string \<Rightarrow> error + pi_scan" where
  "parse_pi_line st line =
     (case (if starts_with ''let '' line then scan2_str line fmt_let_expr else None) of
        Some (name_buf, expr_buf) \<Rightarrow> parse_pi_let st name_buf expr_buf
      | None \<Rightarrow>
     (if starts_with ''request service exit'' line then
        (case scan1_str line fmt_exit_var of
           None \<Rightarrow> Inl PiMalformedExit
         | Some v \<Rightarrow> Inr (st\<lparr>ps_pi := (ps_pi st)\<lparr>pi_exit_var := trim v\<rparr>\<rparr>))
      else if starts_with ''return'' line then
        (case scan1_str line fmt_return_var of
           None \<Rightarrow> Inl PiMalformedReturn
         | Some v \<Rightarrow> Inr (st\<lparr>ps_pi := (ps_pi st)\<lparr>pi_return_var := trim v\<rparr>\<rparr>))
      else Inr st))"

fun parse_pi_lines :: "string list \<Rightarrow> pi_scan \<Rightarrow> error + pi_scan" where
  "parse_pi_lines [] st = Inr st"
| "parse_pi_lines (line # rest) st =
     (case parse_pi_line st line of
        Inl e \<Rightarrow> Inl e
      | Inr st' \<Rightarrow> parse_pi_lines rest st')"

text \<open>The checks after the loop (523-570).\<close>

definition lower_pi :: "pi_scan \<Rightarrow> program_ir \<Rightarrow> error + program_ir" where
  "lower_pi st ir =
     (let p = ps_pi st
      in if \<not> have_mul st \<or> \<not> have_div st then Inl PiRequiresMulDiv
         else if pi_exit_var p = [] \<or> pi_return_var p = [] then Inl PiMissingExitReturn
         else if pi_exit_var p \<noteq> pi_return_var p then Inl PiExitReturnMismatch
         else if result_var p \<noteq> pi_exit_var p then Inl PiExitNotResult
         else if result_lhs p \<noteq> temp_var p then Inl PiResultNotDividingTemp
         else
           (case (find_binding (ps_bindings st) (temp_lhs p),
                  find_binding (ps_bindings st) (temp_rhs p),
                  find_binding (ps_bindings st) (result_rhs p)) of
              (Some mul_lhs, Some mul_rhs, Some den_binding) \<Rightarrow>
                Inr (ir\<lparr>pi := p\<lparr>numerator_var := strncpy127 (ib_name mul_lhs),
                                 numerator_value := ib_value mul_lhs,
                                 scale_var := strncpy127 (ib_name mul_rhs),
                                 scale_value := ib_value mul_rhs,
                                 denominator_var := strncpy127 (ib_name den_binding),
                                 denominator_value := ib_value den_binding\<rparr>,
                       kind := PROGRAM_PI_TEST\<rparr>)
            | _ \<Rightarrow> Inl PiUndefinedBindings))"

text \<open>The locals at the start: no bindings, no statement seen, \<open>ir->pi\<close> zeroed.\<close>

definition pi_scan_init :: pi_scan where
  "pi_scan_init = \<lparr>ps_bindings = [], have_mul = False, have_div = False, ps_pi = zero_pi_ir\<rparr>"

definition parse_pi_program :: "string list \<Rightarrow> program_ir \<Rightarrow> error + program_ir" where
  "parse_pi_program lines ir =
     (case parse_pi_lines lines pi_scan_init of
        Inl e \<Rightarrow> Inl e
      | Inr st \<Rightarrow> lower_pi st ir)"

section \<open>Reading lines and choosing the recognizer (compiler_stub.c, 573-630)\<close>

text \<open>
  \<open>fgets(buffer, n, fp)\<close> on the unread text: at most \<open>n - 1\<close> characters, up to and
  including the first newline. The result is empty exactly at end of file.
\<close>

definition fgets :: "nat \<Rightarrow> string \<Rightarrow> string" where
  "fgets n text =
     (let pre = takeWhile (\<lambda>c. c \<noteq> NL) text
      in if length pre < n - 1 \<and> length pre < length text then take (Suc (length pre)) text
         else take (n - 1) text)"

text \<open>The buffers that successive calls of \<open>fgets\<close> return until end of file.\<close>

function fgets_lines :: "nat \<Rightarrow> string \<Rightarrow> string list" where
  "fgets_lines n text =
     (if text = [] \<or> n < 2 then []
      else fgets n text # fgets_lines n (drop (length (fgets n text)) text))"
  by pat_completeness auto
termination
  by (relation "measure (\<lambda>(n, text). length text)") (auto simp: fgets_def Let_def)

declare fgets_lines.simps [simp del]

text \<open>
  The \<open>while (fgets ..)\<close> loop of \<open>parse_source\<close>: each buffer is trimmed (as a C
  string, so read up to its first NUL), empty lines are skipped, and line 257 is an error.
\<close>

fun load_lines :: "string list \<Rightarrow> string list \<Rightarrow> error + string list" where
  "load_lines [] lines = Inr lines"
| "load_lines (buffer # rest) lines =
     (let line = trim (cstr buffer)
      in if line = [] then load_lines rest lines
         else if length lines \<ge> 256 then Inl InputTooLarge
         else load_lines rest (lines @ [take 2047 line]))"

definition has_string_binding :: "string list \<Rightarrow> bool" where
  "has_string_binding lines = list_ex (\<lambda>l. strstr l '': string ='' \<noteq> None) lines"

definition has_loop :: "string list \<Rightarrow> bool" where
  "has_loop lines = list_ex (\<lambda>l. starts_with ''while'' l) lines"

definition has_arithmetic_chain :: "string list \<Rightarrow> bool" where
  "has_arithmetic_chain lines = list_ex (\<lambda>l. CHR ''*'' \<in> set l \<or> CHR ''/'' \<in> set l) lines"

text \<open>The second half of \<open>parse_source\<close> (592-629), on the line sequence.\<close>

definition parse_lines :: "string list \<Rightarrow> program_ir \<Rightarrow> error + program_ir" where
  "parse_lines lines ir =
     (if has_loop lines then parse_loop_sum_program lines ir
      else if has_arithmetic_chain lines then parse_pi_program lines ir
      else if has_string_binding lines then parse_string_program lines ir
      else Inl UnsupportedProgramShape)"

definition parse_source :: "string \<Rightarrow> program_ir \<Rightarrow> error + program_ir" where
  "parse_source fp ir =
     (case load_lines (fgets_lines 2048 fp) [] of
        Inl e \<Rightarrow> Inl e
      | Inr lines \<Rightarrow> parse_lines lines ir)"

section \<open>The IR validator (compiler_stub.c, 1033-1116)\<close>

definition validate_string :: "program_ir \<Rightarrow> error + program_ir" where
  "validate_string ir =
     (if length (bindings ir) = 0 then Inl ExpectedStringBinding
      else if \<not> have_print ir then Inl ExpectedPrint
      else if \<not> have_exit ir \<or> \<not> have_return ir then Inl ExpectedExitReturn
      else
        (let idx = print_binding_index ir;
             found = find_string_binding_index ir (print_arg ir)
         in if (idx < 0 \<or> idx \<ge> int (length (bindings ir))) \<and> found < 0
              then Inl PrintArgUnresolved
            else
              (let ir1 = (if idx < 0 \<or> idx \<ge> int (length (bindings ir))
                          then ir\<lparr>print_binding_index := found\<rparr> else ir);
                   binding = bindings ir1 ! nat (print_binding_index ir1)
               in if print_arg ir1 \<noteq> sb_name binding then Inl PrintArgMismatch
                  else if exit_value ir1 \<noteq> return_value ir1 then Inl ExitReturnMismatch
                  else if exit_value ir1 \<noteq> 0 then Inl OnlyExitCodeZero
                  else Inr ir1)))"

definition validate_loop :: "program_ir \<Rightarrow> error + program_ir" where
  "validate_loop ir =
     (if accumulator (loop ir) = [] \<or> counter (loop ir) = []
        then Inl LoopMissingAccumulatorCounter
      else if loop_exit_var (loop ir) \<noteq> accumulator (loop ir)
              \<or> loop_return_var (loop ir) \<noteq> accumulator (loop ir)
        then Inl LoopExitReturnNotAccumulator
      else Inr ir)"

definition validate_pi :: "program_ir \<Rightarrow> error + program_ir" where
  "validate_pi ir =
     (if numerator_var (pi ir) = [] \<or> denominator_var (pi ir) = [] \<or> scale_var (pi ir) = []
        then Inl PiMissingBindings
      else if denominator_value (pi ir) = 0 then Inl DenominatorIsZero
      else if result_var (pi ir) \<noteq> pi_exit_var (pi ir)
              \<or> pi_return_var (pi ir) \<noteq> result_var (pi ir)
        then Inl PiExitReturnNotResult
      else Inr ir)"

text \<open>\<open>validate_program\<close>: one branch per program kind.\<close>

definition validate_program :: "program_ir \<Rightarrow> error + program_ir" where
  "validate_program ir =
     (case kind ir of
        PROGRAM_STRING \<Rightarrow> validate_string ir
      | PROGRAM_LOOP_SUM \<Rightarrow> validate_loop ir
      | PROGRAM_PI_TEST \<Rightarrow> validate_pi ir
      | PROGRAM_NONE \<Rightarrow> Inl UnrecognisedKind)"

definition load_program_ir :: "string \<Rightarrow> error + program_ir" where
  "load_program_ir fp =
     (case parse_source fp initial_ir of
        Inl e \<Rightarrow> Inl e
      | Inr ir \<Rightarrow> validate_program ir)"

section \<open>The ISA encoder (compiler_stub.c, 71-173)\<close>

datatype isa_opcode =
    ISA_OPCODE_NOP | ISA_OPCODE_MOV | ISA_OPCODE_ADD | ISA_OPCODE_SUB | ISA_OPCODE_CMP
  | ISA_OPCODE_JMP | ISA_OPCODE_CJMP | ISA_OPCODE_CALL | ISA_OPCODE_RET | ISA_OPCODE_SVC
  | ISA_OPCODE_HALT | ISA_OPCODE_MUL | ISA_OPCODE_DIV | ISA_OPCODE_REM

fun opcode_byte :: "isa_opcode \<Rightarrow> 8 word" where
  "opcode_byte ISA_OPCODE_NOP = 0x00"
| "opcode_byte ISA_OPCODE_MOV = 0x01"
| "opcode_byte ISA_OPCODE_ADD = 0x04"
| "opcode_byte ISA_OPCODE_SUB = 0x05"
| "opcode_byte ISA_OPCODE_CMP = 0x06"
| "opcode_byte ISA_OPCODE_JMP = 0x07"
| "opcode_byte ISA_OPCODE_CJMP = 0x08"
| "opcode_byte ISA_OPCODE_CALL = 0x09"
| "opcode_byte ISA_OPCODE_RET = 0x0A"
| "opcode_byte ISA_OPCODE_SVC = 0x0B"
| "opcode_byte ISA_OPCODE_HALT = 0x0C"
| "opcode_byte ISA_OPCODE_MUL = 0x0D"
| "opcode_byte ISA_OPCODE_DIV = 0x0E"
| "opcode_byte ISA_OPCODE_REM = 0x0F"

datatype isa_register =
  ISA_REG_R0 | ISA_REG_R1 | ISA_REG_R2 | ISA_REG_R3 | ISA_REG_R4 | ISA_REG_R5 | ISA_REG_R6
  | ISA_REG_R7

fun reg_byte :: "isa_register \<Rightarrow> 8 word" where
  "reg_byte ISA_REG_R0 = 0"
| "reg_byte ISA_REG_R1 = 1"
| "reg_byte ISA_REG_R2 = 2"
| "reg_byte ISA_REG_R3 = 3"
| "reg_byte ISA_REG_R4 = 4"
| "reg_byte ISA_REG_R5 = 5"
| "reg_byte ISA_REG_R6 = 6"
| "reg_byte ISA_REG_R7 = 7"

datatype isa_condition =
  ISA_COND_EQ | ISA_COND_NE | ISA_COND_LT | ISA_COND_LE | ISA_COND_GT | ISA_COND_GE

fun cond_byte :: "isa_condition \<Rightarrow> 8 word" where
  "cond_byte ISA_COND_EQ = 0x01"
| "cond_byte ISA_COND_NE = 0x02"
| "cond_byte ISA_COND_LT = 0x03"
| "cond_byte ISA_COND_LE = 0x04"
| "cond_byte ISA_COND_GT = 0x05"
| "cond_byte ISA_COND_GE = 0x06"

definition ISA_OPERAND_UNUSED :: "8 word" where
  "ISA_OPERAND_UNUSED = 0x00"

definition ISA_OPERAND_LABEL :: "8 word" where
  "ISA_OPERAND_LABEL = 0xFE"

definition ISA_OPERAND_IMMEDIATE :: "8 word" where
  "ISA_OPERAND_IMMEDIATE = 0xFF"

definition pack_instruction_word ::
  "8 word \<Rightarrow> 8 word \<Rightarrow> 8 word \<Rightarrow> 8 word \<Rightarrow> 32 word \<Rightarrow> 64 word" where
  "pack_instruction_word opcode op0 op1 op2 imm32 =
     push_bit 56 (ucast opcode) OR push_bit 48 (ucast op0) OR push_bit 40 (ucast op1)
       OR push_bit 32 (ucast op2) OR ucast imm32"

text \<open>
  \<open>ensure_signed_32_range(long long value, ..)\<close>: the argument is the mathematical
  value of what the caller passes; the result is true when the source returns 1 (the
  value is out of range).
\<close>

definition ensure_signed_32_range :: "int \<Rightarrow> bool" where
  "ensure_signed_32_range v = (v < - (2 ^ 31) \<or> v > 2 ^ 31 - 1)"

definition encode_mov_immediate :: "isa_register \<Rightarrow> int32 \<Rightarrow> 64 word" where
  "encode_mov_immediate dest v =
     pack_instruction_word (opcode_byte ISA_OPCODE_MOV) (reg_byte dest) ISA_OPERAND_IMMEDIATE
       ISA_OPERAND_UNUSED v"

definition encode_mov_register :: "isa_register \<Rightarrow> isa_register \<Rightarrow> 64 word" where
  "encode_mov_register dest source =
     pack_instruction_word (opcode_byte ISA_OPCODE_MOV) (reg_byte dest) (reg_byte source)
       ISA_OPERAND_UNUSED 0"

definition encode_mov_label :: "isa_register \<Rightarrow> 64 word" where
  "encode_mov_label dest =
     pack_instruction_word (opcode_byte ISA_OPCODE_MOV) (reg_byte dest) ISA_OPERAND_LABEL
       ISA_OPERAND_UNUSED 0"

definition encode_arith_reg_reg ::
  "isa_opcode \<Rightarrow> isa_register \<Rightarrow> isa_register \<Rightarrow> isa_register \<Rightarrow> 64 word" where
  "encode_arith_reg_reg opcode dest lhs rhs =
     pack_instruction_word (opcode_byte opcode) (reg_byte dest) (reg_byte lhs) (reg_byte rhs) 0"

definition encode_mul_reg_reg :: "isa_register \<Rightarrow> isa_register \<Rightarrow> isa_register \<Rightarrow> 64 word" where
  "encode_mul_reg_reg dest lhs rhs = encode_arith_reg_reg ISA_OPCODE_MUL dest lhs rhs"

definition encode_div_reg_reg :: "isa_register \<Rightarrow> isa_register \<Rightarrow> isa_register \<Rightarrow> 64 word" where
  "encode_div_reg_reg dest lhs rhs = encode_arith_reg_reg ISA_OPCODE_DIV dest lhs rhs"

definition encode_rem_reg_reg :: "isa_register \<Rightarrow> isa_register \<Rightarrow> isa_register \<Rightarrow> 64 word" where
  "encode_rem_reg_reg dest lhs rhs = encode_arith_reg_reg ISA_OPCODE_REM dest lhs rhs"

definition encode_arith_reg_imm ::
  "isa_opcode \<Rightarrow> isa_register \<Rightarrow> isa_register \<Rightarrow> int32 \<Rightarrow> 64 word" where
  "encode_arith_reg_imm opcode dest lhs imm =
     pack_instruction_word (opcode_byte opcode) (reg_byte dest) (reg_byte lhs)
       ISA_OPERAND_IMMEDIATE imm"

definition encode_cmp_reg_imm :: "isa_register \<Rightarrow> int32 \<Rightarrow> 64 word" where
  "encode_cmp_reg_imm lhs imm =
     pack_instruction_word (opcode_byte ISA_OPCODE_CMP) (reg_byte lhs) ISA_OPERAND_IMMEDIATE
       ISA_OPERAND_UNUSED imm"

definition encode_cjmp :: "isa_condition \<Rightarrow> 64 word" where
  "encode_cjmp cond =
     pack_instruction_word (opcode_byte ISA_OPCODE_CJMP) (cond_byte cond) ISA_OPERAND_LABEL
       ISA_OPERAND_UNUSED 0"

definition encode_jmp :: "64 word" where
  "encode_jmp =
     pack_instruction_word (opcode_byte ISA_OPCODE_JMP) ISA_OPERAND_LABEL ISA_OPERAND_UNUSED
       ISA_OPERAND_UNUSED 0"

section \<open>The manifest writer (compiler_stub.c, 124-129 and 632-792)\<close>

text \<open>
  The output file is the sequence of writes made to it. A write by
  \<open>emit_instruction_word\<close> keeps the word and its comment, a \<open>label\<close> line keeps
  the label, every other write is its text. \<open>manifest_text\<close> gives the bytes of the file.
\<close>

datatype manifest_line = Text string | Label string | Word "64 word" string

definition ln :: "string \<Rightarrow> string" where
  "ln s = s @ [NL]"

definition hex_digit_upper :: "nat \<Rightarrow> char" where
  "hex_digit_upper d = ''0123456789ABCDEF'' ! d"

text \<open>\<open>%016llX\<close>\<close>

definition hex16 :: "64 word \<Rightarrow> string" where
  "hex16 w = map (\<lambda>k. hex_digit_upper (unat (drop_bit (4 * k) w AND 0xF))) (rev [0..<16])"

fun dec_nat :: "nat \<Rightarrow> string" where
  "dec_nat n =
     (if n < 10 then [char_of (48 + n)] else dec_nat (n div 10) @ [char_of (48 + n mod 10)])"

declare dec_nat.simps [simp del]

text \<open>\<open>%d\<close>\<close>

definition dec_int :: "int \<Rightarrow> string" where
  "dec_int i = (if i < 0 then CHR ''-'' # dec_nat (nat (- i)) else dec_nat (nat i))"

fun render_line :: "manifest_line \<Rightarrow> string" where
  "render_line (Text s) = s"
| "render_line (Label l) = ln (''label '' @ l)"
| "render_line (Word w comment) = ln (''bytes 0x'' @ hex16 w @ ''  ; '' @ comment)"

definition manifest_text :: "manifest_line list \<Rightarrow> string" where
  "manifest_text out = concat (map render_line out)"

definition emit_instruction_word ::
  "manifest_line list \<Rightarrow> 64 word \<Rightarrow> string \<Rightarrow> manifest_line list" where
  "emit_instruction_word out w comment = out @ [Word w comment]"

text \<open>\<open>snprintf(comment, sizeof comment, ..)\<close> with \<open>char comment[256]\<close>.\<close>

definition snprintf256 :: "string \<Rightarrow> string" where
  "snprintf256 s = take 255 s"

definition write_escape_ascii :: "manifest_line list \<Rightarrow> string \<Rightarrow> manifest_line list" where
  "write_escape_ascii out literal =
     out @ [Text (''ascii '' @ [DQUOTE] @
              concat (map (\<lambda>c. if c = DQUOTE then [BACKSLASH, DQUOTE] else [c]) literal) @
              [DQUOTE, NL])]"

definition RUNTIME_NONE :: "32 word" where
  "RUNTIME_NONE = 0"

definition RUNTIME_PRINT_AND_EXIT :: "32 word" where
  "RUNTIME_PRINT_AND_EXIT = 1"

definition RUNTIME_EXIT_WITH_R0 :: "32 word" where
  "RUNTIME_EXIT_WITH_R0 = 2"

definition emit_runtime_print_and_exit :: "manifest_line list \<Rightarrow> manifest_line list" where
  "emit_runtime_print_and_exit out =
     out @ [Text (ln ''label __aur_runtime_print_and_exit''),
            Text (ln ''bytes 0x0B01010000000000  ; svc 0x01 write(stdout)''),
            Text (ln ''bytes 0x0B02000000000000  ; svc 0x02 exit(r0)''),
            Text (ln (ln ''halt''))]"

definition emit_runtime_exit_with_r0 :: "manifest_line list \<Rightarrow> manifest_line list" where
  "emit_runtime_exit_with_r0 out =
     out @ [Text (ln ''label __aur_runtime_exit_with_r0''),
            Text (ln ''bytes 0x0B02000000000000  ; svc 0x02 exit(r0)''),
            Text (ln (ln ''halt''))]"

definition emit_runtime_section :: "manifest_line list \<Rightarrow> 32 word \<Rightarrow> manifest_line list" where
  "emit_runtime_section out flags =
     (let out1 = (if flags AND RUNTIME_PRINT_AND_EXIT \<noteq> 0
                  then emit_runtime_print_and_exit out else out)
      in if flags AND RUNTIME_EXIT_WITH_R0 \<noteq> 0 then emit_runtime_exit_with_r0 out1 else out1)"

text \<open>
  The three emitters take the output written so far and the runtime flags, and return
  the error (if any), the output and the flags.
\<close>

fun emit_binding_blocks :: "string_binding list \<Rightarrow> manifest_line list \<Rightarrow> manifest_line list" where
  "emit_binding_blocks [] out = out"
| "emit_binding_blocks (b # bs) out =
     emit_binding_blocks bs
       (write_escape_ascii (out @ [Label (sb_name b)]) (sb_literal b) @ [Text (ln ''pad 0x0010'')])"

definition emit_string_manifest ::
  "program_ir \<Rightarrow> manifest_line list \<Rightarrow> 32 word \<Rightarrow> error option \<times> manifest_line list \<times> 32 word" where
  "emit_string_manifest ir out flags =
     (if print_binding_index ir < 0 \<or> print_binding_index ir \<ge> int (length (bindings ir))
      then (Some PrintBindingNotResolved, out, flags)
      else
        (let print_binding = bindings ir ! nat (print_binding_index ir);
             out1 = out @ [Text (ln ''# Aurora Minimal ISA manifest (manual draft)''),
                           Text (ln ''header minimal_isa''),
                           Text (ln ''org 0x0000''),
                           Label ''main''];
             comment = snprintf256 (''mov r1, #addr('' @ sb_name print_binding @ '')'');
             out2 = emit_instruction_word out1 (encode_mov_label ISA_REG_R1) comment;
             out3 = emit_instruction_word out2 (encode_mov_immediate ISA_REG_R0 0) ''mov r0, #0'';
             flags' = flags OR RUNTIME_PRINT_AND_EXIT;
             out4 = out3 @ [Text [NL]]
         in (None, emit_binding_blocks (bindings ir) out4, flags')))"

definition emit_loop_manifest ::
  "program_ir \<Rightarrow> manifest_line list \<Rightarrow> 32 word \<Rightarrow> error option \<times> manifest_line list \<times> 32 word" where
  "emit_loop_manifest ir out flags =
     (let out1 = out @ [Text (ln ''# Minimal ISA manifest for arithmetic loop example''),
                        Text (ln ''header minimal_isa''),
                        Text (ln ''org 0x0000''),
                        Label ''main'']
      in if ensure_signed_32_range (sint (accumulator_init (loop ir)))
           then (Some ImmediateOutOfRange, out1, flags)
         else if ensure_signed_32_range (sint (counter_init (loop ir)))
           then (Some ImmediateOutOfRange, out1, flags)
         else
           (let comment = snprintf256 (''mov r1, #'' @ dec_int (sint (accumulator_init (loop ir)))
                            @ ''             ; accumulator'');
                out2 = emit_instruction_word out1
                         (encode_mov_immediate ISA_REG_R1 (accumulator_init (loop ir))) comment;
                comment' = snprintf256 (''mov r2, #'' @ dec_int (sint (counter_init (loop ir)))
                            @ ''             ; counter'');
                out3 = emit_instruction_word out2
                         (encode_mov_immediate ISA_REG_R2 (counter_init (loop ir))) comment';
                out4 = out3 @ [Label ''loop''];
                out5 = emit_instruction_word out4
                         (encode_arith_reg_reg ISA_OPCODE_ADD ISA_REG_R1 ISA_REG_R1 ISA_REG_R2)
                         ''add r1, r1, r2         ; accumulator += counter'';
                out6 = emit_instruction_word out5
                         (encode_arith_reg_imm ISA_OPCODE_SUB ISA_REG_R2 ISA_REG_R2 1)
                         ''sub r2, r2, #1         ; counter--'';
                out7 = emit_instruction_word out6 (encode_cmp_reg_imm ISA_REG_R2 0)
                         ''cmp r2, #0             ; compare with zero'';
                out8 = emit_instruction_word out7 (encode_cjmp ISA_COND_EQ)
                         ''cjmp eq, exit          ; if zero -> exit'';
                out9 = emit_instruction_word out8 encode_jmp
                         ''jmp loop               ; loop back (patched later)'';
                out10 = out9 @ [Label ''exit''];
                out11 = emit_instruction_word out10 (encode_mov_register ISA_REG_R0 ISA_REG_R1)
                         ''mov r0, r1             ; move result into r0''
            in (None, out11, flags OR RUNTIME_EXIT_WITH_R0)))"

definition emit_pi_manifest ::
  "program_ir \<Rightarrow> manifest_line list \<Rightarrow> 32 word \<Rightarrow> error option \<times> manifest_line list \<times> 32 word" where
  "emit_pi_manifest ir out flags =
     (let out1 = out @ [Text (ln ''# Minimal ISA manifest for pi approximation test''),
                        Text (ln ''header minimal_isa''),
                        Text (ln ''org 0x0000''),
                        Label ''main'']
      in if ensure_signed_32_range (sint (numerator_value (pi ir)))
           then (Some ImmediateOutOfRange, out1, flags)
         else if ensure_signed_32_range (sint (denominator_value (pi ir)))
           then (Some ImmediateOutOfRange, out1, flags)
         else if ensure_signed_32_range (sint (scale_value (pi ir)))
           then (Some ImmediateOutOfRange, out1, flags)
         else
           (let comment1 = snprintf256 (''mov r1, #'' @ dec_int (sint (numerator_value (pi ir)))
                             @ ''             ; '' @ numerator_var (pi ir));
                out2 = emit_instruction_word out1
                         (encode_mov_immediate ISA_REG_R1 (numerator_value (pi ir))) comment1;
                comment2 = snprintf256 (''mov r2, #'' @ dec_int (sint (denominator_value (pi ir)))
                             @ ''             ; '' @ denominator_var (pi ir));
                out3 = emit_instruction_word out2
                         (encode_mov_immediate ISA_REG_R2 (denominator_value (pi ir))) comment2;
                comment3 = snprintf256 (''mov r3, #'' @ dec_int (sint (scale_value (pi ir)))
                             @ ''             ; '' @ scale_var (pi ir));
                out4 = emit_instruction_word out3
                         (encode_mov_immediate ISA_REG_R3 (scale_value (pi ir))) comment3;
                out5 = emit_instruction_word out4
                         (encode_mul_reg_reg ISA_REG_R4 ISA_REG_R1 ISA_REG_R3)
                         ''mul r4, r1, r3           ; temp = numerator * scale'';
                out6 = emit_instruction_word out5
                         (encode_rem_reg_reg ISA_REG_R6 ISA_REG_R4 ISA_REG_R2)
                         ''rem r6, r4, r2           ; remainder (diagnostics)'';
                out7 = emit_instruction_word out6
                         (encode_div_reg_reg ISA_REG_R5 ISA_REG_R4 ISA_REG_R2)
                         ''div r5, r4, r2           ; pi_scaled = temp / denominator'';
                out8 = emit_instruction_word out7 (encode_mov_register ISA_REG_R0 ISA_REG_R5)
                         ''mov r0, r5             ; move result into r0''
            in (None, out8, flags OR RUNTIME_EXIT_WITH_R0)))"

text \<open>
  \<open>emit_manifest\<close>: \<open>fopen(output_path, "w")\<close> creates the file or empties it, whatever it
  held (\<open>None\<close>: no such file). Failures of the file system are not modelled.
\<close>

definition emit_manifest ::
  "program_ir \<Rightarrow> manifest_line list option \<Rightarrow> error option \<times> manifest_line list option" where
  "emit_manifest ir file =
     (let out = [];
          (rc, out1, runtime_flags) =
            (case kind ir of
               PROGRAM_STRING \<Rightarrow> emit_string_manifest ir out RUNTIME_NONE
             | PROGRAM_LOOP_SUM \<Rightarrow> emit_loop_manifest ir out RUNTIME_NONE
             | PROGRAM_PI_TEST \<Rightarrow> emit_pi_manifest ir out RUNTIME_NONE
             | PROGRAM_NONE \<Rightarrow> (Some UnsupportedKindForEmission, out, RUNTIME_NONE))
      in if rc = None \<and> runtime_flags \<noteq> RUNTIME_NONE
           then (rc, Some (emit_runtime_section (out1 @ [Text [NL]]) runtime_flags))
         else (rc, Some out1))"

text \<open>\<open>aurc_compile_file\<close> (1323-1330): the input file's text, the output file before.\<close>

definition aurc_compile_file ::
  "string \<Rightarrow> manifest_line list option \<Rightarrow> error option \<times> manifest_line list option" where
  "aurc_compile_file input file =
     (case load_program_ir input of
        Inl e \<Rightarrow> (Some e, file)
      | Inr ir \<Rightarrow> emit_manifest ir file)"

section \<open>An execution semantics for the emitted instructions\<close>

text \<open>
  The repository encodes instructions and never runs them. The definitions of this
  section give the emitted words the meaning that the mnemonics in their comments and
  the generated C of \<open>emit_c_source\<close> (\<open>+\<close>, \<open>-\<close>, \<open>*\<close>, \<open>/\<close>, \<open>%\<close> of C) give them.
  Registers hold mathematical integers, as the sums and products of the specification
  are; an immediate is the signed value of the 32-bit field.
\<close>

text \<open>Modelled from the spec: the fields of an instruction word (the ISA has no
  decoder in the sources): opcode in the highest byte, three operand bytes, 32-bit
  immediate.\<close>

definition decode_opcode :: "64 word \<Rightarrow> 8 word" where
  "decode_opcode w = ucast (drop_bit 56 w)"

definition decode_op0 :: "64 word \<Rightarrow> 8 word" where
  "decode_op0 w = ucast (drop_bit 48 w)"

definition decode_op1 :: "64 word \<Rightarrow> 8 word" where
  "decode_op1 w = ucast (drop_bit 40 w)"

definition decode_op2 :: "64 word \<Rightarrow> 8 word" where
  "decode_op2 w = ucast (drop_bit 32 w)"

definition decode_imm :: "64 word \<Rightarrow> 32 word" where
  "decode_imm w = ucast w"

text \<open>Modelled from the spec: the machine state (the ISA has no interpreter in the
  sources): the index of the next manifest line, the registers, and the difference
  left by the last compare.\<close>

record machine =
  pc :: nat
  regs :: "8 word \<Rightarrow> int"
  cmp_diff :: int

text \<open>Modelled from the spec: truncating division and its remainder, the \<open>/\<close> and
  \<open>%\<close> of the C that \<open>emit_c_source\<close> generates for the same program (the ISA has no
  interpreter in the sources).\<close>

definition trunc_div :: "int \<Rightarrow> int \<Rightarrow> int" where
  "trunc_div a b = (if (a < 0) = (b < 0) then \<bar>a\<bar> div \<bar>b\<bar> else - (\<bar>a\<bar> div \<bar>b\<bar>))"

definition trunc_rem :: "int \<Rightarrow> int \<Rightarrow> int" where
  "trunc_rem a b = a - b * trunc_div a b"

text \<open>Modelled from the spec: the target of a jump (the ISA has no interpreter in the
  sources). The encoded word holds only the label marker; the label is named in the
  comment of the word (\<open>jmp loop\<close>, \<open>cjmp eq, exit\<close>): the last word of the mnemonic
  before the \<open>;\<close>.\<close>

definition jump_target :: "string \<Rightarrow> string" where
  "jump_target comment =
     rev (takeWhile (\<lambda>c. \<not> isspace c \<and> c \<noteq> CHR '','')
            (rev (trim (takeWhile (\<lambda>c. c \<noteq> CHR '';'') comment))))"

text \<open>Modelled from the spec: label resolution (the assembler of the sources never
  resolves labels): the index of the first \<open>label\<close> line with that name.\<close>

definition find_label :: "manifest_line list \<Rightarrow> string \<Rightarrow> nat option" where
  "find_label prog l =
     (let i = length (takeWhile (\<lambda>x. x \<noteq> Label l) prog)
      in if i < length prog then Some i else None)"

text \<open>Modelled from the spec: the conditions of a conditional jump (the ISA has no
  interpreter in the sources), on the difference left by the last compare.\<close>

definition cond_holds :: "8 word \<Rightarrow> int \<Rightarrow> bool option" where
  "cond_holds c d =
     (if c = cond_byte ISA_COND_EQ then Some (d = 0)
      else if c = cond_byte ISA_COND_NE then Some (d \<noteq> 0)
      else if c = cond_byte ISA_COND_LT then Some (d < 0)
      else if c = cond_byte ISA_COND_LE then Some (d \<le> 0)
      else if c = cond_byte ISA_COND_GT then Some (d > 0)
      else if c = cond_byte ISA_COND_GE then Some (d \<ge> 0)
      else None)"

text \<open>Modelled from the spec: the effect of one instruction word (the ISA has no
  interpreter in the sources). \<open>None\<close> is a trap: division by zero, an unknown label or
  condition, or an instruction outside the arithmetic templates (label addresses, call,
  return, supervisor call, halt).\<close>

definition exec_word :: "manifest_line list \<Rightarrow> 64 word \<Rightarrow> string \<Rightarrow> machine \<Rightarrow> machine option" where
  "exec_word prog w comment m =
     (let opc = decode_opcode w; a = decode_op0 w; b = decode_op1 w; c = decode_op2 w;
          imm = sint (decode_imm w);
          rhs = (if c = ISA_OPERAND_IMMEDIATE then imm else regs m c);
          next = (\<lambda>m'. Some (m'\<lparr>pc := Suc (pc m)\<rparr>))
      in if opc = opcode_byte ISA_OPCODE_NOP then next m
         else if opc = opcode_byte ISA_OPCODE_MOV then
           (if b = ISA_OPERAND_IMMEDIATE then next (m\<lparr>regs := (regs m)(a := imm)\<rparr>)
            else if b = ISA_OPERAND_LABEL then None
            else next (m\<lparr>regs := (regs m)(a := regs m b)\<rparr>))
         else if opc = opcode_byte ISA_OPCODE_ADD then
           next (m\<lparr>regs := (regs m)(a := regs m b + rhs)\<rparr>)
         else if opc = opcode_byte ISA_OPCODE_SUB then
           next (m\<lparr>regs := (regs m)(a := regs m b - rhs)\<rparr>)
         else if opc = opcode_byte ISA_OPCODE_MUL then
           next (m\<lparr>regs := (regs m)(a := regs m b * rhs)\<rparr>)
         else if opc = opcode_byte ISA_OPCODE_DIV then
           (if rhs = 0 then None
            else next (m\<lparr>regs := (regs m)(a := trunc_div (regs m b) rhs)\<rparr>))
         else if opc = opcode_byte ISA_OPCODE_REM then
           (if rhs = 0 then None
            else next (m\<lparr>regs := (regs m)(a := trunc_rem (regs m b) rhs)\<rparr>))
         else if opc = opcode_byte ISA_OPCODE_CMP then
           next (m\<lparr>cmp_diff := regs m a - (if b = ISA_OPERAND_IMMEDIATE then imm else regs m b)\<rparr>)
         else if opc = opcode_byte ISA_OPCODE_JMP then
           (case find_label prog (jump_target comment) of
              None \<Rightarrow> None
            | Some t \<Rightarrow> Some (m\<lparr>pc := t\<rparr>))
         else if opc = opcode_byte ISA_OPCODE_CJMP then
           (case cond_holds a (cmp_diff m) of
              None \<Rightarrow> None
            | Some taken \<Rightarrow>
                if taken then
                  (case find_label prog (jump_target comment) of
                     None \<Rightarrow> None
                   | Some t \<Rightarrow> Some (m\<lparr>pc := t\<rparr>))
                else next m)
         else None)"

text \<open>Modelled from the spec: one step of the machine on the manifest lines (the ISA
  has no interpreter in the sources); text and label lines are passed over.\<close>

definition step :: "manifest_line list \<Rightarrow> machine \<Rightarrow> machine option" where
  "step prog m =
     (case prog ! pc m of
        Text t \<Rightarrow> Some (m\<lparr>pc := Suc (pc m)\<rparr>)
      | Label l \<Rightarrow> Some (m\<lparr>pc := Suc (pc m)\<rparr>)
      | Word w comment \<Rightarrow> exec_word prog w comment m)"

datatype run_result = Halted machine | Trapped | OutOfFuel

text \<open>Modelled from the spec: running the lines a template emitted, from a machine
  state, for at most the given number of steps (the ISA has no interpreter in the
  sources). The run halts when control leaves the last line.\<close>

fun exec :: "nat \<Rightarrow> manifest_line list \<Rightarrow> machine \<Rightarrow> run_result" where
  "exec 0 prog m = (if pc m \<ge> length prog then Halted m else OutOfFuel)"
| "exec (Suc k) prog m =
     (if pc m \<ge> length prog then Halted m
      else case step prog m of
             None \<Rightarrow> Trapped
           | Some m' \<Rightarrow> exec k prog m')"

section \<open>The manifest assembler (compiler_stub.c, 1118-1321)\<close>

text \<open>
  The binary file is the list of bytes written to it so far; every emitter takes it and
  returns it extended, with the error if there is one. Bytes written before an error
  stay written: the source has no call that removes or empties the file. Failures of
  the file system (\<open>fputc\<close> returning \<open>EOF\<close>) are not modelled.
\<close>

definition hex_value :: "char \<Rightarrow> int" where
  "hex_value c =
     (let n = (of_char c :: int)
      in if 48 \<le> n \<and> n \<le> 57 then n - 48
         else if 97 \<le> n \<and> n \<le> 102 then 10 + (n - 97)
         else if 65 \<le> n \<and> n \<le> 70 then 10 + (n - 65)
         else - 1)"

text \<open>
  The \<open>for\<close> loop of \<open>emit_hex_bytes\<close>, with its variables \<open>high\<close> and \<open>written\<close>.
\<close>

fun hex_loop ::
  "string \<Rightarrow> int \<Rightarrow> nat \<Rightarrow> 8 word list \<Rightarrow> error option \<times> int \<times> nat \<times> 8 word list" where
  "hex_loop [] high written out = (None, high, written, out)"
| "hex_loop (p # ps) high written out =
     (if p = CHR '';'' \<or> isspace p then (None, high, written, out)
      else if p = CHR ''_'' then hex_loop ps high written out
      else
        (let v = hex_value p
         in if v < 0 then (Some InvalidHexDigit, high, written, out)
            else if high < 0 then hex_loop ps v written out
            else hex_loop ps (- 1) (Suc written) (out @ [word_of_int (push_bit 4 high OR v)])))"

definition emit_hex_bytes :: "8 word list \<Rightarrow> string \<Rightarrow> error option \<times> 8 word list" where
  "emit_hex_bytes out hex =
     (case hex_loop hex (- 1) 0 out of
        (Some e, high, written, out') \<Rightarrow> (Some e, out')
      | (None, high, written, out') \<Rightarrow>
          if high \<ge> 0 then (Some OddHexDigits, out')
          else if written = 0 then (Some BytesNoData, out')
          else (None, out'))"

definition ascii_escape :: "char \<Rightarrow> 8 word option" where
  "ascii_escape c =
     (if c = BACKSLASH then Some 0x5C
      else if c = DQUOTE then Some 0x22
      else if c = CHR ''n'' then Some 0x0A
      else if c = CHR ''r'' then Some 0x0D
      else if c = CHR ''t'' then Some 0x09
      else if c = CHR ''0'' then Some 0x00
      else None)"

text \<open>The \<open>while\<close> loop of \<open>emit_ascii_bytes\<close> and the test for the closing quote.\<close>

fun ascii_loop :: "string \<Rightarrow> 8 word list \<Rightarrow> error option \<times> 8 word list" where
  "ascii_loop [] out = (Some AsciiMissingCloseQuote, out)"
| "ascii_loop [p] out =
     (if p = DQUOTE then (None, out)
      else if p = BACKSLASH then (Some AsciiIncompleteEscape, out)
      else ascii_loop [] (out @ [of_char p]))"
| "ascii_loop (p # q # ps) out =
     (if p = DQUOTE then (None, out)
      else if p = BACKSLASH then
        (case ascii_escape q of
           None \<Rightarrow> (Some AsciiUnsupportedEscape, out)
         | Some ch \<Rightarrow> ascii_loop ps (out @ [ch]))
      else ascii_loop (q # ps) (out @ [of_char p]))"

definition emit_ascii_bytes :: "8 word list \<Rightarrow> string \<Rightarrow> error option \<times> 8 word list" where
  "emit_ascii_bytes out line =
     (if DQUOTE \<notin> set line then (Some AsciiMissingOpenQuote, out)
      else ascii_loop (drop 1 (dropWhile (\<lambda>c. c \<noteq> DQUOTE) line)) out)"

text \<open>
  \<open>strtoul(value, &endptr, 0)\<close>: white space, an optional sign, then hexadecimal digits
  after \<open>0x\<close>, octal digits after \<open>0\<close>, or decimal digits. \<open>None\<close> stands for
  \<open>endptr == value\<close>. The result saturates at \<open>ULONG_MAX\<close>, taken for a 64-bit
  \<open>unsigned long\<close>; a minus sign negates modulo \<open>ULONG_MAX + 1\<close>.
\<close>

definition ULONG_MAX :: nat where
  "ULONG_MAX = 2 ^ 64 - 1"

definition base_value :: "nat \<Rightarrow> string \<Rightarrow> nat" where
  "base_value b ds = foldl (\<lambda>a c. b * a + nat (hex_value c)) 0 ds"

definition strtoul0 :: "string \<Rightarrow> nat option" where
  "strtoul0 s =
     (let s1 = dropWhile isspace s;
          neg = (take 1 s1 = ''-'');
          s2 = (if take 1 s1 = ''-'' \<or> take 1 s1 = ''+'' then drop 1 s1 else s1);
          ishex = (\<lambda>c. hex_value c \<ge> 0);
          isoct = (\<lambda>c. hex_value c \<ge> 0 \<and> hex_value c < 8);
          v = (if (take 2 s2 = ''0x'' \<or> take 2 s2 = ''0X'') \<and> takeWhile ishex (drop 2 s2) \<noteq> []
                 then Some (base_value 16 (takeWhile ishex (drop 2 s2)))
               else if take 1 s2 = ''0'' then Some (base_value 8 (takeWhile isoct s2))
               else if takeWhile isdigit s2 \<noteq> [] then Some (base_value 10 (takeWhile isdigit s2))
               else None)
      in case v of
           None \<Rightarrow> None
         | Some n \<Rightarrow>
             Some (if n > ULONG_MAX then ULONG_MAX
                   else if neg then (ULONG_MAX + 1 - n) mod (ULONG_MAX + 1)
                   else n))"

definition emit_pad :: "8 word list \<Rightarrow> string \<Rightarrow> error option \<times> 8 word list" where
  "emit_pad out line =
     (let v = dropWhile isspace (drop 3 line)
      in if v = [] then (Some PadMissingValue, out)
         else case strtoul0 v of
                None \<Rightarrow> (Some PadInvalidValue, out)
              | Some count \<Rightarrow> (None, out @ replicate count 0))"

definition halt_bytes :: "8 word list" where
  "halt_bytes = [0x0C, 0, 0, 0, 0, 0, 0, 0]"

text \<open>The body of the \<open>while (fgets ..)\<close> loop of \<open>aurc_assemble_manifest\<close>, for one buffer.\<close>

definition assemble_line :: "string \<Rightarrow> 8 word list \<Rightarrow> error option \<times> 8 word list" where
  "assemble_line buffer out =
     (let line = trim (cstr buffer)
      in if line = [] \<or> take 1 line = ''#'' then (None, out)
         else if starts_with ''bytes'' line then
           (case strstr line ''0x'' of
              None \<Rightarrow> (Some BytesMissing0x, out)
            | Some hex \<Rightarrow> emit_hex_bytes out (drop 2 hex))
         else if starts_with ''ascii'' line then emit_ascii_bytes out line
         else if starts_with ''pad'' line then emit_pad out line
         else if starts_with ''halt'' line then (None, out @ halt_bytes)
         else (None, out))"

text \<open>The loop: an error sets \<open>rc\<close> and leaves the loop; the file is then closed as it is.\<close>

fun assemble_lines :: "string list \<Rightarrow> 8 word list \<Rightarrow> error option \<times> 8 word list" where
  "assemble_lines [] out = (None, out)"
| "assemble_lines (buffer # rest) out =
     (case assemble_line buffer out of
        (Some e, out') \<Rightarrow> (Some e, out')
      | (None, out') \<Rightarrow> assemble_lines rest out')"

text \<open>
  \<open>aurc_assemble_manifest\<close>: the manifest's text and the binary file before
  (\<open>fopen(binary_path, "wb")\<close> creates or empties it).
\<close>

definition aurc_assemble_manifest ::
  "string \<Rightarrow> 8 word list option \<Rightarrow> error option \<times> 8 word list option" where
  "aurc_assemble_manifest manifest binary =
     (case assemble_lines (fgets_lines 4096 manifest) [] of
        (rc, out) \<Rightarrow> (rc, Some out))"

section \<open>The emitted templates as programs\<close>

text \<open>The lines that the Loop-Sum and Pi emitters write into an empty file.\<close>

definition loop_code :: "program_ir \<Rightarrow> manifest_line list" where
  "loop_code ir = fst (snd (emit_loop_manifest ir [] RUNTIME_NONE))"

definition pi_code :: "program_ir \<Rightarrow> manifest_line list" where
  "pi_code ir = fst (snd (emit_pi_manifest ir [] RUNTIME_NONE))"

text \<open>
  The states the Loop-Sum template runs through when the counter starts at 0: once the
  loop is entered the counter is never positive, and it is negative from the first
  decrement on, so the compare with zero never gives equality.
\<close>

definition loop_never_exits :: "machine \<Rightarrow> bool" where
  "loop_never_exits m =
     (pc m \<le> 5 \<or> (pc m = 6 \<or> pc m = 7 \<or> pc m = 8) \<and> regs m 2 \<le> 0
      \<or> pc m = 9 \<and> regs m 2 < 0
      \<or> pc m = 10 \<and> regs m 2 < 0 \<and> cmp_diff m < 0
      \<or> pc m = 11 \<and> regs m 2 < 0)"

section \<open>The bytes directive as the specification words it\<close>

text \<open>
  The specification's reading of \<open>bytes 0xHEX\<close>: the payload is the text after \<open>0x\<close>
  up to the first white space or \<open>;\<close>, without its \<open>_\<close> characters; consecutive
  digits are paired, the high nibble first.
\<close>

definition hex_payload :: "string \<Rightarrow> string" where
  "hex_payload hex =
     filter (\<lambda>c. c \<noteq> CHR ''_'') (takeWhile (\<lambda>c. c \<noteq> CHR '';'' \<and> \<not> isspace c) hex)"

definition is_hex :: "char \<Rightarrow> bool" where
  "is_hex c = (hex_value c \<ge> 0)"

fun pair_bytes :: "string \<Rightarrow> 8 word list" where
  "pair_bytes (hi # lo # rest) = word_of_int (16 * hex_value hi + hex_value lo) # pair_bytes rest"
| "pair_bytes [] = []"
| "pair_bytes [hi] = []"

section \<open>Lines a recognizer can use\<close>



text \<open>Every integer binding the Pi recognizer has stored has a name.\<close>

definition pi_names_ok :: "pi_scan \<Rightarrow> bool" where
  "pi_names_ok st = list_all (\<lambda>b. ib_name b \<noteq> []) (ps_bindings st)"

section \<open>Example programs\<close>




text \<open>A Pi-Approximation program with a negative numerator: \<open>-22 * 100 / 7\<close>.\<close>

definition example_pi :: "string list" where
  "example_pi =
     [''let num: int = -22;'', ''let den: int = 7;'', ''let scale: int = 100;'',
      ''let t: int = num * scale;'', ''let r: int = t / den;'',
      ''request service exit(r);'', ''return r;'']"

definition example_pi_ir :: program_ir where
  "example_pi_ir = initial_ir\<lparr>kind := PROGRAM_PI_TEST,
     pi := \<lparr>numerator_var = ''num'', numerator_value = - 22, denominator_var = ''den'',
       denominator_value = 7, scale_var = ''scale'', scale_value = 100, temp_var = ''t'',
       temp_lhs = ''num'', temp_rhs = ''scale'', result_var = ''r'', result_lhs = ''t'',
       result_rhs = ''den'', pi_exit_var = ''r'', pi_return_var = ''r''\<rparr>\<rparr>"

text \<open>A manifest whose second directive has an invalid hex digit after two good bytes.\<close>

definition example_partial_manifest :: string where
  "example_partial_manifest = ln ''halt'' @ ln ''bytes 0x0102ZZ''"



text \<open>A Pi program whose literal for \<open>scale\<close> is \<open>2^32 + 1\<close>.\<close>

definition example_big :: "string list" where
  "example_big =
     [''let num: int = 355;'', ''let den: int = 113;'', ''let scale: int = 4294967297;'',
      ''let t: int = num * scale;'', ''let r: int = t / den;'',
      ''request service exit(r);'', ''return r;'']"

text \<open>A Pi program with a zero denominator, and one with two multiplications.\<close>

definition example_zero_denominator :: "string list" where
  "example_zero_denominator =
     [''let num: int = 355;'', ''let den: int = 0;'', ''let scale: int = 100;'',
      ''let t: int = num * scale;'', ''let r: int = t / den;'',
      ''request service exit(r);'', ''return r;'']"

definition example_two_multiplications :: "string list" where
  "example_two_multiplications =
     [''let num: int = 355;'', ''let den: int = 113;'', ''let scale: int = 100;'',
      ''let t: int = num * scale;'', ''let u: int = num * den;'', ''let r: int = t / den;'',
      ''request service exit(r);'', ''return r;'']"

text \<open>The Loop-Sum scenario of the specification with the counter starting at 0.\<close>

definition example_zero_counter :: "string list" where
  "example_zero_counter =
     [''let sum: int = 7;'', ''let n: int = 0;'', ''while n > 0 {'', ''sum = sum + n;'',
      ''n = n - 1;'', ''}'', ''request service exit(sum);'', ''return sum;'']"

definition example_zero_counter_ir :: program_ir where
  "example_zero_counter_ir = initial_ir\<lparr>kind := PROGRAM_LOOP_SUM,
     loop := \<lparr>accumulator = ''sum'', accumulator_init = 7, counter = ''n'', counter_init = 0,
       loop_exit_var = ''sum'', loop_return_var = ''sum''\<rparr>\<rparr>"


text \<open>
  A Pi program whose denominator literal is \<open>2^32\<close>, and the program of
  \<open>example_big\<close> with the literal of \<open>scale\<close> reduced modulo \<open>2^32\<close>.
\<close>

definition example_denominator_wrap :: "string list" where
  "example_denominator_wrap =
     [''let num: int = 355;'', ''let den: int = 4294967296;'', ''let scale: int = 100;'',
      ''let t: int = num * scale;'', ''let r: int = t / den;'',
      ''request service exit(r);'', ''return r;'']"

definition example_big_reduced :: "string list" where
  "example_big_reduced =
     [''let num: int = 355;'', ''let den: int = 113;'', ''let scale: int = 1;'',
      ''let t: int = num * scale;'', ''let r: int = t / den;'',
      ''request service exit(r);'', ''return r;'']"

section \<open>The shape classifier\<close>



section \<open>The manifest writer\<close>

text \<open>
  C8. The manifest writer is deterministic: the return code and the manifest written
  for an IR depend on the IR alone, not on what the output file held before; writing
  the manifest a second time, over the first, gives the same file again.
\<close>

theorem manifest_writer_deterministic:
  "emit_manifest ir file1 = emit_manifest ir file2 \<and>
   emit_manifest ir (snd (emit_manifest ir file1)) = emit_manifest ir file1 \<and>
   map_option manifest_text (snd (emit_manifest ir file1)) =
     map_option manifest_text (snd (emit_manifest ir file2))"
  by (simp add: emit_manifest_def)

section \<open>Running the emitted templates\<close>

lemma decode_opcode_pack [simp]: "decode_opcode (pack_instruction_word opc a b c imm) = opc"
  unfolding decode_opcode_def pack_instruction_word_def
  by (rule bit_word_eqI) (auto simp add: bit_simps dest: bit_imp_le_length)

lemma decode_op0_pack [simp]: "decode_op0 (pack_instruction_word opc a b c imm) = a"
  unfolding decode_op0_def pack_instruction_word_def
  by (rule bit_word_eqI) (auto simp add: bit_simps dest: bit_imp_le_length)

lemma decode_op1_pack [simp]: "decode_op1 (pack_instruction_word opc a b c imm) = b"
  unfolding decode_op1_def pack_instruction_word_def
  by (rule bit_word_eqI) (auto simp add: bit_simps dest: bit_imp_le_length)

lemma decode_op2_pack [simp]: "decode_op2 (pack_instruction_word opc a b c imm) = c"
  unfolding decode_op2_def pack_instruction_word_def
  by (rule bit_word_eqI) (auto simp add: bit_simps dest: bit_imp_le_length)

lemma decode_imm_pack [simp]: "decode_imm (pack_instruction_word opc a b c imm) = imm"
  unfolding decode_imm_def pack_instruction_word_def
  by (rule bit_word_eqI) (auto simp add: bit_simps dest: bit_imp_le_length)

lemma signed_32_range_ok: "\<not> ensure_signed_32_range (sint (v :: 32 word))"
  using sint_ge [of v] sint_lt [of v] by (simp add: ensure_signed_32_range_def)

lemmas encode_defs = encode_mov_immediate_def encode_mov_register_def encode_mov_label_def
  encode_arith_reg_reg_def encode_mul_reg_reg_def encode_div_reg_reg_def encode_rem_reg_reg_def
  encode_arith_reg_imm_def encode_cmp_reg_imm_def encode_cjmp_def encode_jmp_def

lemmas operand_defs = ISA_OPERAND_UNUSED_def ISA_OPERAND_LABEL_def ISA_OPERAND_IMMEDIATE_def

lemma reg_byte_not_marker [simp]:
  "reg_byte r \<noteq> 0xFF" "reg_byte r \<noteq> 0xFE"
  by (cases r; simp)+

lemma exec_mov_immediate:
  "exec_word prog (encode_mov_immediate dest v) comment m =
     Some (m\<lparr>regs := (regs m)(reg_byte dest := sint v), pc := Suc (pc m)\<rparr>)"
  by (simp add: exec_word_def encode_mov_immediate_def operand_defs)

lemma exec_mov_register:
  "exec_word prog (encode_mov_register dest source) comment m =
     Some (m\<lparr>regs := (regs m)(reg_byte dest := regs m (reg_byte source)), pc := Suc (pc m)\<rparr>)"
  by (simp add: exec_word_def encode_mov_register_def operand_defs)

lemma exec_add_reg_reg:
  "exec_word prog (encode_arith_reg_reg ISA_OPCODE_ADD dest lhs rhs) comment m =
     Some (m\<lparr>regs := (regs m)(reg_byte dest := regs m (reg_byte lhs) + regs m (reg_byte rhs)),
             pc := Suc (pc m)\<rparr>)"
  by (simp add: exec_word_def encode_arith_reg_reg_def operand_defs)

lemma exec_sub_reg_imm:
  "exec_word prog (encode_arith_reg_imm ISA_OPCODE_SUB dest lhs imm) comment m =
     Some (m\<lparr>regs := (regs m)(reg_byte dest := regs m (reg_byte lhs) - sint imm),
             pc := Suc (pc m)\<rparr>)"
  by (simp add: exec_word_def encode_arith_reg_imm_def operand_defs)

lemma exec_mul_reg_reg:
  "exec_word prog (encode_mul_reg_reg dest lhs rhs) comment m =
     Some (m\<lparr>regs := (regs m)(reg_byte dest := regs m (reg_byte lhs) * regs m (reg_byte rhs)),
             pc := Suc (pc m)\<rparr>)"
  by (simp add: exec_word_def encode_mul_reg_reg_def encode_arith_reg_reg_def operand_defs)

lemma exec_div_reg_reg:
  "regs m (reg_byte rhs) \<noteq> 0 \<Longrightarrow>
   exec_word prog (encode_div_reg_reg dest lhs rhs) comment m =
     Some (m\<lparr>regs := (regs m)(reg_byte dest :=
               trunc_div (regs m (reg_byte lhs)) (regs m (reg_byte rhs))),
             pc := Suc (pc m)\<rparr>)"
  by (simp add: exec_word_def encode_div_reg_reg_def encode_arith_reg_reg_def operand_defs)

lemma exec_rem_reg_reg:
  "regs m (reg_byte rhs) \<noteq> 0 \<Longrightarrow>
   exec_word prog (encode_rem_reg_reg dest lhs rhs) comment m =
     Some (m\<lparr>regs := (regs m)(reg_byte dest :=
               trunc_rem (regs m (reg_byte lhs)) (regs m (reg_byte rhs))),
             pc := Suc (pc m)\<rparr>)"
  by (simp add: exec_word_def encode_rem_reg_reg_def encode_arith_reg_reg_def operand_defs)

lemma exec_cmp_reg_imm:
  "exec_word prog (encode_cmp_reg_imm lhs imm) comment m =
     Some (m\<lparr>cmp_diff := regs m (reg_byte lhs) - sint imm, pc := Suc (pc m)\<rparr>)"
  by (simp add: exec_word_def encode_cmp_reg_imm_def operand_defs)

lemma exec_cjmp_eq:
  "find_label prog (jump_target comment) = Some t \<Longrightarrow>
   exec_word prog (encode_cjmp ISA_COND_EQ) comment m =
     Some (m\<lparr>pc := (if cmp_diff m = 0 then t else Suc (pc m))\<rparr>)"
  by (simp add: exec_word_def encode_cjmp_def operand_defs cond_holds_def)

lemma exec_jmp:
  "find_label prog (jump_target comment) = Some t \<Longrightarrow>
   exec_word prog encode_jmp comment m = Some (m\<lparr>pc := t\<rparr>)"
  by (simp add: exec_word_def encode_jmp_def operand_defs)

lemma exec_more: "exec k prog m = Halted m' \<Longrightarrow> exec (k + j) prog m = Halted m'"
proof (induction k arbitrary: m)
  case 0
  then show ?case by (cases j) (auto split: if_splits)
next
  case (Suc k)
  then show ?case by (auto split: if_splits option.splits)
qed

lemma pi_code_eq:
  "pi_code ir =
     [Text (ln ''# Minimal ISA manifest for pi approximation test''),
      Text (ln ''header minimal_isa''),
      Text (ln ''org 0x0000''),
      Label ''main'',
      Word (encode_mov_immediate ISA_REG_R1 (numerator_value (pi ir)))
        (snprintf256 (''mov r1, #'' @ dec_int (sint (numerator_value (pi ir)))
           @ ''             ; '' @ numerator_var (pi ir))),
      Word (encode_mov_immediate ISA_REG_R2 (denominator_value (pi ir)))
        (snprintf256 (''mov r2, #'' @ dec_int (sint (denominator_value (pi ir)))
           @ ''             ; '' @ denominator_var (pi ir))),
      Word (encode_mov_immediate ISA_REG_R3 (scale_value (pi ir)))
        (snprintf256 (''mov r3, #'' @ dec_int (sint (scale_value (pi ir)))
           @ ''             ; '' @ scale_var (pi ir))),
      Word (encode_mul_reg_reg ISA_REG_R4 ISA_REG_R1 ISA_REG_R3)
        ''mul r4, r1, r3           ; temp = numerator * scale'',
      Word (encode_rem_reg_reg ISA_REG_R6 ISA_REG_R4 ISA_REG_R2)
        ''rem r6, r4, r2           ; remainder (diagnostics)'',
      Word (encode_div_reg_reg ISA_REG_R5 ISA_REG_R4 ISA_REG_R2)
        ''div r5, r4, r2           ; pi_scaled = temp / denominator'',
      Word (encode_mov_register ISA_REG_R0 ISA_REG_R5)
        ''mov r0, r5             ; move result into r0'']"
  by (simp add: pi_code_def emit_pi_manifest_def signed_32_range_ok Let_def
      emit_instruction_word_def)

lemmas exec_encoded = exec_mov_immediate exec_mov_register exec_add_reg_reg exec_sub_reg_imm
  exec_mul_reg_reg exec_div_reg_reg exec_rem_reg_reg exec_cmp_reg_imm

lemma jump_target_exit: "jump_target ''cjmp eq, exit          ; if zero -> exit'' = ''exit''"
  by code_simp

lemma jump_target_loop: "jump_target ''jmp loop               ; loop back (patched later)'' = ''loop''"
  by code_simp

lemma loop_code_eq:
  "loop_code ir =
     [Text (ln ''# Minimal ISA manifest for arithmetic loop example''),
      Text (ln ''header minimal_isa''),
      Text (ln ''org 0x0000''),
      Label ''main'',
      Word (encode_mov_immediate ISA_REG_R1 (accumulator_init (loop ir)))
        (snprintf256 (''mov r1, #'' @ dec_int (sint (accumulator_init (loop ir)))
           @ ''             ; accumulator'')),
      Word (encode_mov_immediate ISA_REG_R2 (counter_init (loop ir)))
        (snprintf256 (''mov r2, #'' @ dec_int (sint (counter_init (loop ir)))
           @ ''             ; counter'')),
      Label ''loop'',
      Word (encode_arith_reg_reg ISA_OPCODE_ADD ISA_REG_R1 ISA_REG_R1 ISA_REG_R2)
        ''add r1, r1, r2         ; accumulator += counter'',
      Word (encode_arith_reg_imm ISA_OPCODE_SUB ISA_REG_R2 ISA_REG_R2 1)
        ''sub r2, r2, #1         ; counter--'',
      Word (encode_cmp_reg_imm ISA_REG_R2 0) ''cmp r2, #0             ; compare with zero'',
      Word (encode_cjmp ISA_COND_EQ) ''cjmp eq, exit          ; if zero -> exit'',
      Word encode_jmp ''jmp loop               ; loop back (patched later)'',
      Label ''exit'',
      Word (encode_mov_register ISA_REG_R0 ISA_REG_R1) ''mov r0, r1             ; move result into r0'']"
  by (simp add: loop_code_def emit_loop_manifest_def signed_32_range_ok Let_def
      emit_instruction_word_def)

lemma length_loop_code: "length (loop_code ir) = 14"
  by (simp add: loop_code_eq)

lemma find_label_loop: "find_label (loop_code ir) ''loop'' = Some 6"
  by (simp add: loop_code_eq find_label_def)

lemma find_label_exit: "find_label (loop_code ir) ''exit'' = Some 12"
  by (simp add: loop_code_eq find_label_def)

lemma loop_code_nth:
  "loop_code ir ! 0 = Text (ln ''# Minimal ISA manifest for arithmetic loop example'')"
  "loop_code ir ! Suc 0 = Text (ln ''header minimal_isa'')"
  "loop_code ir ! 2 = Text (ln ''org 0x0000'')"
  "loop_code ir ! 3 = Label ''main''"
  "loop_code ir ! 4 = Word (encode_mov_immediate ISA_REG_R1 (accumulator_init (loop ir)))
        (snprintf256 (''mov r1, #'' @ dec_int (sint (accumulator_init (loop ir)))
           @ ''             ; accumulator''))"
  "loop_code ir ! 5 = Word (encode_mov_immediate ISA_REG_R2 (counter_init (loop ir)))
        (snprintf256 (''mov r2, #'' @ dec_int (sint (counter_init (loop ir)))
           @ ''             ; counter''))"
  "loop_code ir ! 6 = Label ''loop''"
  "loop_code ir ! 7 = Word (encode_arith_reg_reg ISA_OPCODE_ADD ISA_REG_R1 ISA_REG_R1 ISA_REG_R2)
        ''add r1, r1, r2         ; accumulator += counter''"
  "loop_code ir ! 8 = Word (encode_arith_reg_imm ISA_OPCODE_SUB ISA_REG_R2 ISA_REG_R2 1)
        ''sub r2, r2, #1         ; counter--''"
  "loop_code ir ! 9 = Word (encode_cmp_reg_imm ISA_REG_R2 0) ''cmp r2, #0             ; compare with zero''"
  "loop_code ir ! 10 = Word (encode_cjmp ISA_COND_EQ) ''cjmp eq, exit          ; if zero -> exit''"
  "loop_code ir ! 11 = Word encode_jmp ''jmp loop               ; loop back (patched later)''"
  "loop_code ir ! 12 = Label ''exit''"
  "loop_code ir ! 13 = Word (encode_mov_register ISA_REG_R0 ISA_REG_R1) ''mov r0, r1             ; move result into r0''"
  by (simp_all add: loop_code_eq)

lemma step_loop_code:
  "pc m \<le> 3 \<Longrightarrow> step (loop_code ir) m = Some (m\<lparr>pc := Suc (pc m)\<rparr>)"
  "pc m = 4 \<Longrightarrow> step (loop_code ir) m =
     Some (m\<lparr>regs := (regs m)(1 := sint (accumulator_init (loop ir))), pc := 5\<rparr>)"
  "pc m = 5 \<Longrightarrow> step (loop_code ir) m =
     Some (m\<lparr>regs := (regs m)(2 := sint (counter_init (loop ir))), pc := 6\<rparr>)"
  "pc m = 6 \<Longrightarrow> step (loop_code ir) m = Some (m\<lparr>pc := 7\<rparr>)"
  "pc m = 7 \<Longrightarrow> step (loop_code ir) m =
     Some (m\<lparr>regs := (regs m)(1 := regs m 1 + regs m 2), pc := 8\<rparr>)"
  "pc m = 8 \<Longrightarrow> step (loop_code ir) m =
     Some (m\<lparr>regs := (regs m)(2 := regs m 2 - 1), pc := 9\<rparr>)"
  "pc m = 9 \<Longrightarrow> step (loop_code ir) m = Some (m\<lparr>cmp_diff := regs m 2, pc := 10\<rparr>)"
  "pc m = 10 \<Longrightarrow> step (loop_code ir) m =
     Some (m\<lparr>pc := (if cmp_diff m = 0 then 12 else 11)\<rparr>)"
  "pc m = 11 \<Longrightarrow> step (loop_code ir) m = Some (m\<lparr>pc := 6\<rparr>)"
  "pc m = 12 \<Longrightarrow> step (loop_code ir) m = Some (m\<lparr>pc := 13\<rparr>)"
  "pc m = 13 \<Longrightarrow> step (loop_code ir) m =
     Some (m\<lparr>regs := (regs m)(0 := regs m 1), pc := 14\<rparr>)"
proof -
  show "pc m \<le> 3 \<Longrightarrow> step (loop_code ir) m = Some (m\<lparr>pc := Suc (pc m)\<rparr>)"
  proof -
    assume "pc m \<le> 3"
    then consider "pc m = 0" | "pc m = 1" | "pc m = 2" | "pc m = 3" by linarith
    then show ?thesis
      by cases (simp_all add: step_def loop_code_nth)
  qed
qed (simp_all add: step_def loop_code_nth exec_encoded exec_cjmp_eq [where t = 12]
      exec_jmp [where t = 6] jump_target_exit jump_target_loop find_label_exit find_label_loop)

lemma loop_never_exits_step:
  assumes "loop_never_exits m" and "sint (counter_init (loop ir)) = 0"
  shows "pc m < length (loop_code ir) \<and>
    (\<exists>m'. step (loop_code ir) m = Some m' \<and> loop_never_exits m')"
proof -
  consider "pc m \<le> 3" | "pc m = 4" | "pc m = 5" | "pc m = 6" | "pc m = 7" | "pc m = 8"
    | "pc m = 9" | "pc m = 10" | "pc m = 11"
    using assms(1) unfolding loop_never_exits_def by linarith
  then show ?thesis
  proof cases
    case 1
    then show ?thesis by (simp add: step_loop_code length_loop_code loop_never_exits_def)
  next
    case 2
    then show ?thesis by (simp add: step_loop_code length_loop_code loop_never_exits_def)
  next
    case 3
    then show ?thesis using assms(2)
      by (simp add: step_loop_code length_loop_code loop_never_exits_def)
  next
    case 4
    then show ?thesis using assms(1)
      by (simp add: step_loop_code length_loop_code loop_never_exits_def)
  next
    case 5
    then show ?thesis using assms(1)
      by (simp add: step_loop_code length_loop_code loop_never_exits_def)
  next
    case 6
    then show ?thesis using assms(1)
      by (simp add: step_loop_code length_loop_code loop_never_exits_def)
  next
    case 7
    then show ?thesis using assms(1)
      by (simp add: step_loop_code length_loop_code loop_never_exits_def)
  next
    case 8
    then show ?thesis using assms(1)
      by (simp add: step_loop_code length_loop_code loop_never_exits_def)
  next
    case 9
    then show ?thesis using assms(1)
      by (simp add: step_loop_code length_loop_code loop_never_exits_def)
  qed
qed

lemma loop_never_exits_exec:
  assumes "sint (counter_init (loop ir)) = 0"
  shows "loop_never_exits m \<Longrightarrow> exec fuel (loop_code ir) m = OutOfFuel"
proof (induction fuel arbitrary: m)
  case 0
  then show ?case
    using loop_never_exits_step [OF 0 assms] by simp
next
  case (Suc fuel)
  from loop_never_exits_step [OF Suc.prems assms]
  obtain m' where "pc m < length (loop_code ir)" "step (loop_code ir) m = Some m'"
    "loop_never_exits m'" by blast
  then show ?case using Suc.IH by simp
qed

lemma loop_iteration:
  assumes "pc m = 6" and "regs m 2 \<noteq> 1"
  shows "exec (Suc (Suc (Suc (Suc (Suc (Suc k)))))) (loop_code ir) m =
    exec k (loop_code ir)
      (m\<lparr>regs := (regs m)(1 := regs m 1 + regs m 2, 2 := regs m 2 - 1),
         cmp_diff := regs m 2 - 1, pc := 6\<rparr>)"
  using assms by (simp add: step_loop_code length_loop_code)

lemma loop_last_iteration:
  assumes "pc m = 6" and "regs m 2 = 1"
  shows "exec (Suc (Suc (Suc (Suc (Suc (Suc (Suc 0))))))) (loop_code ir) m =
    Halted (m\<lparr>regs := (regs m)(1 := regs m 1 + 1, 2 := 0, 0 := regs m 1 + 1),
         cmp_diff := 0, pc := 14\<rparr>)"
  using assms by (simp add: step_loop_code length_loop_code)

lemma loop_from_head:
  "pc m = 6 \<Longrightarrow> regs m 2 = int (Suc k) \<Longrightarrow>
   \<exists>fuel m'. exec fuel (loop_code ir) m = Halted m' \<and>
     regs m' 0 = regs m 1 + (\<Sum>i\<le>Suc k. int i)"
proof (induction k arbitrary: m)
  case 0
  then have "regs m 2 = 1" by simp
  note l = loop_last_iteration [OF "0.prems"(1) this, of ir]
  have "regs (m\<lparr>regs := (regs m)(1 := regs m 1 + 1, 2 := 0, 0 := regs m 1 + 1),
         cmp_diff := 0, pc := 14\<rparr>) 0 = regs m 1 + (\<Sum>i\<le>Suc 0. int i)"
    by simp
  with l show ?case by blast
next
  case (Suc k)
  let ?m = "m\<lparr>regs := (regs m)(1 := regs m 1 + regs m 2, 2 := regs m 2 - 1),
         cmp_diff := regs m 2 - 1, pc := 6\<rparr>"
  have "pc ?m = 6" "regs ?m 2 = int (Suc k)" using Suc.prems by simp_all
  from Suc.IH [OF this] obtain fuel m' where
    h: "exec fuel (loop_code ir) ?m = Halted m'"
      "regs m' 0 = regs ?m 1 + (\<Sum>i\<le>Suc k. int i)" by blast
  have "regs m 2 \<noteq> 1" using Suc.prems by simp
  from loop_iteration [OF Suc.prems(1) this, of fuel ir] h(1)
  have "exec (Suc (Suc (Suc (Suc (Suc (Suc fuel)))))) (loop_code ir) m = Halted m'" by simp
  moreover have "regs m' 0 = regs m 1 + (\<Sum>i\<le>Suc (Suc k). int i)"
    using h(2) Suc.prems by simp
  ultimately show ?case by blast
qed

lemma loop_sum_positive_counter:
  assumes "0 < sint (counter_init (loop ir))"
  shows "\<exists>fuel m'. exec fuel (loop_code ir) \<lparr>pc = 0, regs = r, cmp_diff = d\<rparr> = Halted m' \<and>
     regs m' 0 = sint (accumulator_init (loop ir))
       + (\<Sum>i\<le>nat (sint (counter_init (loop ir))). int i)"
proof -
  let ?m = "\<lparr>pc = 6, regs = r(1 := sint (accumulator_init (loop ir)),
     2 := sint (counter_init (loop ir))), cmp_diff = d\<rparr>"
  obtain k where k: "nat (sint (counter_init (loop ir))) = Suc k"
    using assms by (cases "nat (sint (counter_init (loop ir)))") auto
  then have "regs ?m 2 = int (Suc k)" using assms by simp
  from loop_from_head [OF _ this, of ir] obtain fuel m' where
    h: "exec fuel (loop_code ir) ?m = Halted m'" "regs m' 0 = regs ?m 1 + (\<Sum>i\<le>Suc k. int i)"
    by auto
  have e: "exec (Suc (Suc (Suc (Suc (Suc (Suc fuel)))))) (loop_code ir) \<lparr>pc = 0, regs = r, cmp_diff = d\<rparr>
     = exec fuel (loop_code ir) ?m"
    by (simp add: step_loop_code length_loop_code)
  have "regs m' 0 = sint (accumulator_init (loop ir))
       + (\<Sum>i\<le>nat (sint (counter_init (loop ir))). int i)"
    using h(2) k by simp
  with e h(1) show ?thesis by metis
qed

text \<open>The loader accepts a Loop-Sum program whose counter starts at 0.\<close>

lemma example_zero_counter_loads:
  "load_program_ir (concat (map ln example_zero_counter)) = Inr example_zero_counter_ir"
  by code_simp

lemma example_zero_counter_is_zero:
  "example_zero_counter_ir =
     example_zero_counter_ir\<lparr>loop := (loop example_zero_counter_ir)\<lparr>counter_init := 0\<rparr>\<rparr>"
  by (simp add: example_zero_counter_ir_def)

text \<open>
  C1, at a counter of 0. The specification has the Loop-Sum template compute
  \<open>a + n + (n - 1) + ... + 1\<close> for every counter \<open>n \<ge> 0\<close>, which is \<open>a\<close> at
  \<open>n = 0\<close>. The emitted sequence adds and decrements before it compares, and leaves
  the loop only on equality with zero: started with the counter at 0 it never reaches
  the exit label, whatever the accumulator, the registers before and the number of
  steps allowed. (For a positive counter it does compute the sum:
  \<open>loop_sum_positive_counter\<close>.)
\<close>

theorem loop_sum_zero_counter_never_exits:
  "exec fuel (loop_code (ir\<lparr>loop := (loop ir)\<lparr>counter_init := 0\<rparr>\<rparr>))
     \<lparr>pc = 0, regs = r, cmp_diff = d\<rparr> = OutOfFuel"
  by (rule loop_never_exits_exec) (simp_all add: loop_never_exits_def)

text \<open>
  C2. For a Pi-Approximation IR with a nonzero denominator the emitter succeeds, and
  the emitted sequence, run from any registers, halts after its 11 lines with
  \<open>(numerator * scale) / denominator\<close>, the division truncating, in R0.
\<close>

theorem pi_template_computes_quotient:
  assumes "denominator_value (pi ir) \<noteq> 0"
  shows "fst (emit_pi_manifest ir [] RUNTIME_NONE) = None \<and>
    (\<exists>m'. (\<forall>k. exec (11 + k) (pi_code ir) \<lparr>pc = 0, regs = r, cmp_diff = d\<rparr> = Halted m') \<and>
       regs m' (reg_byte ISA_REG_R0) =
         trunc_div (sint (numerator_value (pi ir)) * sint (scale_value (pi ir)))
           (sint (denominator_value (pi ir))))"
proof -
  have nz: "sint (denominator_value (pi ir)) \<noteq> 0"
    using assms by (simp add: signed_eq_0_iff)
  let ?q = "trunc_div (sint (numerator_value (pi ir)) * sint (scale_value (pi ir)))
              (sint (denominator_value (pi ir)))"
  let ?m = "\<lparr>pc = 11,
      regs = r(1 := sint (numerator_value (pi ir)),
               2 := sint (denominator_value (pi ir)),
               3 := sint (scale_value (pi ir)),
               4 := sint (numerator_value (pi ir)) * sint (scale_value (pi ir)),
               6 := trunc_rem (sint (numerator_value (pi ir)) * sint (scale_value (pi ir)))
                      (sint (denominator_value (pi ir))),
               5 := ?q, 0 := ?q),
      cmp_diff = d\<rparr>"
  have "exec (Suc (Suc (Suc (Suc (Suc (Suc (Suc (Suc (Suc (Suc (Suc 0)))))))))))
      (pi_code ir) \<lparr>pc = 0, regs = r, cmp_diff = d\<rparr> = Halted ?m"
    using nz by (simp add: pi_code_eq step_def exec_encoded)
  then have "exec 11 (pi_code ir) \<lparr>pc = 0, regs = r, cmp_diff = d\<rparr> = Halted ?m"
    by (simp add: eval_nat_numeral)
  then have "\<forall>k. exec (11 + k) (pi_code ir) \<lparr>pc = 0, regs = r, cmp_diff = d\<rparr> = Halted ?m"
    by (simp add: exec_more)
  moreover have "regs ?m (reg_byte ISA_REG_R0) = ?q" by simp
  moreover have "fst (emit_pi_manifest ir [] RUNTIME_NONE) = None"
    by (simp add: emit_pi_manifest_def signed_32_range_ok Let_def)
  ultimately show ?thesis by blast
qed

lemma example_pi_parses: "parse_lines example_pi initial_ir = Inr example_pi_ir"
  by code_simp

theorem pi_template_computes_quotient_witness:
  "parse_lines example_pi initial_ir = Inr example_pi_ir \<and>
   denominator_value (pi example_pi_ir) \<noteq> 0 \<and>
   (\<exists>m'. exec 11 (pi_code example_pi_ir) \<lparr>pc = 0, regs = (\<lambda>_. 0), cmp_diff = 0\<rparr> = Halted m' \<and>
      regs m' (reg_byte ISA_REG_R0) = - 314)"
proof -
  have d: "denominator_value (pi example_pi_ir) \<noteq> 0"
    by (simp add: example_pi_ir_def)
  have q: "trunc_div (sint (numerator_value (pi example_pi_ir)) * sint (scale_value (pi example_pi_ir)))
           (sint (denominator_value (pi example_pi_ir))) = - 314"
    by (simp add: example_pi_ir_def trunc_div_def)
  from pi_template_computes_quotient [OF d, of "\<lambda>_. 0" 0] obtain m' where
    "\<forall>k. exec (11 + k) (pi_code example_pi_ir) \<lparr>pc = 0, regs = (\<lambda>_. 0), cmp_diff = 0\<rparr> = Halted m'"
    "regs m' (reg_byte ISA_REG_R0) = - 314"
    unfolding q by blast
  then have "exec 11 (pi_code example_pi_ir) \<lparr>pc = 0, regs = (\<lambda>_. 0), cmp_diff = 0\<rparr> = Halted m'
    \<and> regs m' (reg_byte ISA_REG_R0) = - 314"
    by (metis add.right_neutral)
  with d example_pi_parses show ?thesis by blast
qed

section \<open>The manifest assembler\<close>

lemma hex_value_range: "hex_value c < 16"
  by (simp add: hex_value_def Let_def)

lemma nibbles_or_add:
  assumes "0 \<le> v" and "v < 16"
  shows "push_bit 4 h OR v = 16 * h + (v :: int)"
proof -
  have "take_bit 4 v = v" using assms by (simp add: take_bit_int_eq_self)
  then have "push_bit 4 h OR v = concat_bit 4 v h"
    by (simp add: concat_bit_def or.commute)
  also have "\<dots> = take_bit 4 v + push_bit 4 h" by (rule concat_bit_eq)
  finally show ?thesis using \<open>take_bit 4 v = v\<close> by (simp add: push_bit_eq_mult)
qed

lemma hex_payload_clean:
  "c \<in> set (hex_payload hex) \<Longrightarrow> c \<noteq> CHR '';'' \<and> \<not> isspace c \<and> c \<noteq> CHR ''_''"
  by (auto simp add: hex_payload_def dest: set_takeWhileD)

lemma hex_loop_payload: "hex_loop hex h w out = hex_loop (hex_payload hex) h w out"
proof (induction hex arbitrary: h w out)
  case Nil
  then show ?case by (simp add: hex_payload_def)
next
  case (Cons c cs)
  have p: "hex_payload (c # cs) =
    (if c = CHR '';'' \<or> isspace c then [] else if c = CHR ''_'' then hex_payload cs
     else c # hex_payload cs)"
    by (simp add: hex_payload_def)
  show ?case
    by (simp add: p Cons.IH [symmetric] Let_def)
qed

lemma not_is_hex: "(hex_value c < 0) = (\<not> is_hex c)"
  by (auto simp add: is_hex_def)

lemma hex_loop_clean:
  assumes "\<forall>c\<in>set ds. c \<noteq> CHR '';'' \<and> \<not> isspace c \<and> c \<noteq> CHR ''_''"
  shows "hex_loop ds (- 1) w out =
     ((if takeWhile is_hex ds = ds then None else Some InvalidHexDigit),
      (if odd (length (takeWhile is_hex ds)) then hex_value (last (takeWhile is_hex ds)) else - 1),
      w + length (takeWhile is_hex ds) div 2,
      out @ pair_bytes (takeWhile is_hex ds))"
  using assms
proof (induction ds arbitrary: w out rule: pair_bytes.induct)
  case (1 hi lo rest)
  from "1.prems" have c: "hi \<noteq> CHR '';''" "\<not> isspace hi" "hi \<noteq> CHR ''_''"
    "lo \<noteq> CHR '';''" "\<not> isspace lo" "lo \<noteq> CHR ''_''"
    and r: "\<forall>c\<in>set rest. c \<noteq> CHR '';'' \<and> \<not> isspace c \<and> c \<noteq> CHR ''_''"
    by simp_all
  note IH = "1.IH" [OF r]
  show ?case
  proof (cases "is_hex hi")
    case False
    with c show ?thesis by (simp add: not_is_hex)
  next
    case hi: True
    show ?thesis
    proof (cases "is_hex lo")
      case False
      with hi c show ?thesis by (simp add: not_is_hex)
    next
      case lo: True
      have v: "push_bit 4 (hex_value hi) OR hex_value lo = 16 * hex_value hi + hex_value lo"
        using lo hex_value_range [of lo] by (intro nibbles_or_add) (simp_all add: is_hex_def)
      have "hex_loop (hi # lo # rest) (- 1) w out =
        hex_loop rest (- 1) (Suc w) (out @ [word_of_int (16 * hex_value hi + hex_value lo)])"
        using hi lo c v by (simp add: not_is_hex)
      then show ?thesis
        using hi lo by (simp add: IH)
    qed
  qed
next
  case 2
  then show ?case by simp
next
  case (3 hi)
  then show ?case by (cases "is_hex hi") (simp_all add: not_is_hex)
qed


lemma last_takeWhile_hex:
  "takeWhile is_hex ds \<noteq> [] \<Longrightarrow> 0 \<le> hex_value (last (takeWhile is_hex ds))"
proof -
  assume a: "takeWhile is_hex ds \<noteq> []"
  then have "last (takeWhile is_hex ds) \<in> set (takeWhile is_hex ds)" by simp
  then have "is_hex (last (takeWhile is_hex ds))" by (rule set_takeWhileD [THEN conjunct2])
  then show ?thesis by (simp add: is_hex_def)
qed

lemma emit_hex_bytes_decodes:
  "emit_hex_bytes out hex =
     (let ds = hex_payload hex; p = takeWhile is_hex ds
      in if p \<noteq> ds then (Some InvalidHexDigit, out @ pair_bytes p)
         else if odd (length ds) then (Some OddHexDigits, out @ pair_bytes ds)
         else if ds = [] then (Some BytesNoData, out)
         else (None, out @ pair_bytes ds))"
proof -
  let ?ds = "hex_payload hex"
  let ?p = "takeWhile is_hex ?ds"
  have clean: "\<forall>c\<in>set ?ds. c \<noteq> CHR '';'' \<and> \<not> isspace c \<and> c \<noteq> CHR ''_''"
    using hex_payload_clean by blast
  have l: "hex_loop hex (- 1) 0 out =
     ((if ?p = ?ds then None else Some InvalidHexDigit),
      (if odd (length ?p) then hex_value (last ?p) else - 1),
      0 + length ?p div 2, out @ pair_bytes ?p)"
    using hex_loop_clean [OF clean, of 0 out] hex_loop_payload [of hex "- 1" 0 out]
    by simp
  have e: "emit_hex_bytes out hex =
      (if ?p \<noteq> ?ds then (Some InvalidHexDigit, out @ pair_bytes ?p)
         else if odd (length ?ds) then (Some OddHexDigits, out @ pair_bytes ?ds)
         else if ?ds = [] then (Some BytesNoData, out)
         else (None, out @ pair_bytes ?ds))"
  proof (cases "?p = ?ds")
    case False
    then show ?thesis unfolding emit_hex_bytes_def l by simp
  next
    case all: True
    have l': "hex_loop hex (- 1) 0 out =
       (None, (if odd (length ?ds) then hex_value (last ?ds) else - 1),
        length ?ds div 2, out @ pair_bytes ?ds)"
      unfolding l all by simp
    have e': "emit_hex_bytes out hex =
       (if (if odd (length ?ds) then hex_value (last ?ds) else - 1) \<ge> 0
          then (Some OddHexDigits, out @ pair_bytes ?ds)
        else if length ?ds div 2 = 0 then (Some BytesNoData, out @ pair_bytes ?ds)
        else (None, out @ pair_bytes ?ds))"
      unfolding emit_hex_bytes_def l' by simp
    show ?thesis
    proof (cases "odd (length ?ds)")
      case True
      then have "?ds \<noteq> []" by auto
      with all have "?p \<noteq> []" by metis
      from last_takeWhile_hex [OF this] have "0 \<le> hex_value (last ?ds)"
        unfolding all .
      with True show ?thesis unfolding e'
        by (simp add: all)
    next
      case even: False
      show ?thesis
      proof (cases "?ds = []")
        case True
        then show ?thesis unfolding e' by (simp add: all)
      next
        case False
        with even have "length ?ds div 2 \<noteq> 0"
          by (cases ?ds rule: pair_bytes.cases) auto
        with False even show ?thesis unfolding e' by (simp add: all)
      qed
    qed
  qed
  show ?thesis unfolding e Let_def by simp
qed




lemma emit_hex_bytes_out:
  "emit_hex_bytes out hex = (fst (emit_hex_bytes [] hex), out @ snd (emit_hex_bytes [] hex))"
  by (simp add: emit_hex_bytes_decodes Let_def)

lemma ascii_loop_out:
  "ascii_loop s out = (fst (ascii_loop s []), out @ snd (ascii_loop s []))"
proof (induction "length s" arbitrary: s out rule: less_induct)
  case less
  consider (1) "s = []" | (2) p where "s = [p]" | (3) p q ps where "s = p # q # ps"
    by (cases s rule: remdups_adj.cases) auto
  then show ?case
  proof cases
    case 1
    then show ?thesis by simp
  next
    case (2 p)
    then show ?thesis by simp
  next
    case (3 p q ps)
    have a: "ascii_loop ps o1 = (fst (ascii_loop ps []), o1 @ snd (ascii_loop ps []))" for o1
      using less [of ps o1] 3 by simp
    have b: "ascii_loop (q # ps) o1 =
        (fst (ascii_loop (q # ps) []), o1 @ snd (ascii_loop (q # ps) []))" for o1
      using less [of "q # ps" o1] 3 by simp
    show ?thesis
      unfolding 3
      by (simp add: a [of "out @ _"] a [of "[_]"] b [of "out @ _"] b [of "[_]"]
          split: option.splits)
  qed
qed

lemma emit_ascii_bytes_out:
  "emit_ascii_bytes out line =
     (fst (emit_ascii_bytes [] line), out @ snd (emit_ascii_bytes [] line))"
  using ascii_loop_out [of _ out] by (simp add: emit_ascii_bytes_def)

lemma emit_pad_out:
  "emit_pad out line = (fst (emit_pad [] line), out @ snd (emit_pad [] line))"
  by (simp add: emit_pad_def Let_def split: option.splits)

lemma assemble_line_out:
  "assemble_line buffer out =
     (fst (assemble_line buffer []), out @ snd (assemble_line buffer []))"
  using emit_hex_bytes_out [of out] emit_ascii_bytes_out [of out] emit_pad_out [of out]
  by (simp add: assemble_line_def Let_def split: option.splits)

lemma assemble_lines_append:
  "assemble_lines (pre @ rest) out =
     (case assemble_lines pre out of
        (Some e, out') \<Rightarrow> (Some e, out')
      | (None, out') \<Rightarrow> assemble_lines rest out')"
  by (induction pre arbitrary: out) (auto split: prod.splits option.splits)

lemma assemble_lines_fails:
  "l \<in> set ls \<Longrightarrow> fst (assemble_line l []) \<noteq> None \<Longrightarrow> fst (assemble_lines ls out) \<noteq> None"
proof (induction ls arbitrary: out)
  case Nil
  then show ?case by simp
next
  case (Cons a ls)
  obtain rc out' where a: "assemble_line a out = (rc, out')" by (cases "assemble_line a out")
  show ?case
  proof (cases rc)
    case (Some e)
    with a show ?thesis by simp
  next
    case None
    with a have "fst (assemble_line a []) = None"
      using assemble_line_out [of a out] by simp
    with Cons.prems have "l \<in> set ls" by auto
    from Cons.IH [OF this Cons.prems(2)] a None show ?thesis by simp
  qed
qed

text \<open>
  C4 as the specification states it fails: the assembly of \<open>halt\<close> followed by a
  \<open>bytes\<close> directive with an invalid digit fails, and the binary file holds the eight
  bytes of \<open>halt\<close> and the two bytes decoded before the invalid digit.
\<close>

theorem assembly_failure_discards_output_counterexample:
  "aurc_assemble_manifest example_partial_manifest None =
     (Some InvalidHexDigit, Some [0x0C, 0, 0, 0, 0, 0, 0, 0, 0x01, 0x02])"
  by code_simp

text \<open>
  C4, amended. A manifest with a directive on which the assembler fails makes the
  assembly fail. The failure is that of the first such directive, and the binary file
  is kept as written so far: the bytes of the directives before it, then the bytes the
  failing directive had emitted when its error was found.
\<close>

theorem assembly_failure_keeps_earlier_bytes:
  "(fgets_lines 4096 manifest = pre @ l # post \<and> assemble_lines pre [] = (None, bs) \<and>
    assemble_line l [] = (Some e, p) \<longrightarrow>
      aurc_assemble_manifest manifest binary = (Some e, Some (bs @ p))) \<and>
   ((\<exists>l\<in>set (fgets_lines 4096 manifest). fst (assemble_line l []) \<noteq> None) \<longrightarrow>
      fst (aurc_assemble_manifest manifest binary) \<noteq> None)"
proof (intro conjI impI)
  assume a: "fgets_lines 4096 manifest = pre @ l # post \<and> assemble_lines pre [] = (None, bs) \<and>
    assemble_line l [] = (Some e, p)"
  then have "assemble_line l bs = (Some e, bs @ p)"
    using assemble_line_out [of l bs] by simp
  with a show "aurc_assemble_manifest manifest binary = (Some e, Some (bs @ p))"
    by (simp add: aurc_assemble_manifest_def assemble_lines_append)
next
  assume "\<exists>l\<in>set (fgets_lines 4096 manifest). fst (assemble_line l []) \<noteq> None"
  then obtain l where "l \<in> set (fgets_lines 4096 manifest)" "fst (assemble_line l []) \<noteq> None"
    by blast
  from assemble_lines_fails [OF this, of "[]"]
  show "fst (aurc_assemble_manifest manifest binary) \<noteq> None"
    by (cases "assemble_lines (fgets_lines 4096 manifest) []")
      (simp add: aurc_assemble_manifest_def)
qed

theorem assembly_failure_keeps_earlier_bytes_witness:
  "fgets_lines 4096 example_partial_manifest = [ln ''halt''] @ ln ''bytes 0x0102ZZ'' # [] \<and>
   assemble_lines [ln ''halt''] [] = (None, halt_bytes) \<and>
   assemble_line (ln ''bytes 0x0102ZZ'') [] = (Some InvalidHexDigit, [0x01, 0x02]) \<and>
   aurc_assemble_manifest example_partial_manifest None =
     (Some InvalidHexDigit, Some (halt_bytes @ [0x01, 0x02])) \<and>
   fst (assemble_line ''ascii abc'' []) = Some AsciiMissingOpenQuote \<and>
   fst (assemble_line (''ascii '' @ [DQUOTE] @ ''abc'') []) = Some AsciiMissingCloseQuote \<and>
   fst (assemble_line ''bytes 0x012'' []) = Some OddHexDigits \<and>
   fst (assemble_line ''bytes 0x'' []) = Some BytesNoData \<and>
   fst (assemble_line ''pad'' []) = Some PadMissingValue \<and>
   fst (assemble_line ''pad zz'' []) = Some PadInvalidValue"
proof -
  have a: "fgets_lines 4096 example_partial_manifest = [ln ''halt''] @ ln ''bytes 0x0102ZZ'' # []"
    by code_simp
  have b: "assemble_lines [ln ''halt''] [] = (None, halt_bytes)"
    by code_simp
  have c: "assemble_line (ln ''bytes 0x0102ZZ'') [] = (Some InvalidHexDigit, [0x01, 0x02])"
    by code_simp
  have d: "fst (assemble_line ''ascii abc'' []) = Some AsciiMissingOpenQuote \<and>
   fst (assemble_line (''ascii '' @ [DQUOTE] @ ''abc'') []) = Some AsciiMissingCloseQuote \<and>
   fst (assemble_line ''bytes 0x012'' []) = Some OddHexDigits \<and>
   fst (assemble_line ''bytes 0x'' []) = Some BytesNoData \<and>
   fst (assemble_line ''pad'' []) = Some PadMissingValue \<and>
   fst (assemble_line ''pad zz'' []) = Some PadInvalidValue"
    by code_simp
  from assembly_failure_keeps_earlier_bytes
    [of example_partial_manifest "[ln ''halt'']" "ln ''bytes 0x0102ZZ''" "[]" halt_bytes
      InvalidHexDigit "[0x01, 0x02]" None] a b c
  have "aurc_assemble_manifest example_partial_manifest None =
     (Some InvalidHexDigit, Some (halt_bytes @ [0x01, 0x02]))"
    by blast
  with a b c d show ?thesis by blast
qed

section \<open>The recognizers\<close>
















lemma sscanf_lit:
  "sscanf s (LIT c # fmt) = v # vs \<Longrightarrow> \<exists>s'. s = c # s' \<and> sscanf s' fmt = v # vs"
  by (cases s) (auto split: if_splits)

lemma sscanf_ws_notset:
  "sscanf s (WS # NOTSET w c # fmt) = SV n # vs \<Longrightarrow> n \<noteq> [] \<and> \<not> isspace (hd n)"
proof -
  assume a: "sscanf s (WS # NOTSET w c # fmt) = SV n # vs"
  define r where "r = dropWhile isspace s"
  define tok where "tok = take w (takeWhile (\<lambda>x. x \<noteq> c) r)"
  from a have t: "tok \<noteq> []" "n = tok"
    by (auto simp add: Let_def r_def tok_def split: if_splits)
  have "r \<noteq> []"
  proof
    assume "r = []"
    then have "tok = []" by (simp add: tok_def)
    with t show False by simp
  qed
  then have h: "\<not> isspace (hd r)" unfolding r_def by (rule hd_dropWhile)
  from t(1) have "hd tok = hd r"
    unfolding tok_def by (cases r; cases w) (auto split: if_splits)
  with t h show ?thesis by simp
qed

lemma scan_let_expr_name:
  assumes "scan2_str line fmt_let_expr = Some (n, e)"
  shows "n \<noteq> [] \<and> \<not> isspace (hd n)"
proof -
  from assms obtain vs where s: "sscanf line fmt_let_expr = SV n # vs"
    by (auto simp add: scan2_str_def split: list.splits scan_value.splits)
  obtain rest where f: "fmt_let_expr =
      LIT CHR ''l'' # LIT CHR ''e'' # LIT CHR ''t'' # WS # NOTSET 127 CHR '':'' # rest"
    by (simp add: fmt_let_expr_def lit_def)
  from s [unfolded f] sscanf_lit obtain s1 where
    "sscanf s1 (LIT CHR ''e'' # LIT CHR ''t'' # WS # NOTSET 127 CHR '':'' # rest) = SV n # vs"
    by blast
  with sscanf_lit obtain s2 where
    "sscanf s2 (LIT CHR ''t'' # WS # NOTSET 127 CHR '':'' # rest) = SV n # vs"
    by blast
  with sscanf_lit obtain s3 where
    "sscanf s3 (WS # NOTSET 127 CHR '':'' # rest) = SV n # vs"
    by blast
  then show ?thesis by (rule sscanf_ws_notset)
qed

lemma trim_nonempty: "n \<noteq> [] \<Longrightarrow> \<not> isspace (hd n) \<Longrightarrow> trim n \<noteq> []"
proof -
  assume a: "n \<noteq> []" "\<not> isspace (hd n)"
  then have d: "dropWhile isspace n = n" by (cases n) auto
  from a have "hd n \<in> set (rev n)" by simp
  with a(2) have "dropWhile isspace (rev n) \<noteq> []"
    by (metis dropWhile_eq_Nil_conv)
  with d show ?thesis by (simp add: trim_def)
qed

lemma parse_pi_let_names:
  "pi_names_ok st \<Longrightarrow> trim name_buf \<noteq> [] \<Longrightarrow> parse_pi_let st name_buf expr_buf = Inr st' \<Longrightarrow>
   pi_names_ok st'"
  by (auto simp add: parse_pi_let_def pi_names_ok_def Let_def strncpy127_def
      split: if_splits option.splits)

lemma parse_pi_line_names:
  "pi_names_ok st \<Longrightarrow> parse_pi_line st line = Inr st' \<Longrightarrow> pi_names_ok st'"
proof -
  assume ok: "pi_names_ok st" and p: "parse_pi_line st line = Inr st'"
  show ?thesis
  proof (cases "if starts_with ''let '' line then scan2_str line fmt_let_expr else None")
    case None
    with p ok show ?thesis
      by (auto simp add: parse_pi_line_def pi_names_ok_def split: if_splits option.splits)
  next
    case (Some ne)
    obtain n e where ne: "ne = (n, e)" by (cases ne)
    with Some have "scan2_str line fmt_let_expr = Some (n, e)" by (auto split: if_splits)
    from scan_let_expr_name [OF this] have "trim n \<noteq> []" by (simp add: trim_nonempty)
    moreover from p Some ne have "parse_pi_let st n e = Inr st'"
      by (simp add: parse_pi_line_def)
    ultimately show ?thesis using ok parse_pi_let_names by blast
  qed
qed

lemma parse_pi_lines_names:
  "pi_names_ok st \<Longrightarrow> parse_pi_lines lines st = Inr st' \<Longrightarrow> pi_names_ok st'"
proof (induction lines arbitrary: st)
  case Nil
  then show ?case by simp
next
  case (Cons a lines)
  then show ?case
    by (cases "parse_pi_line st a") (auto dest: parse_pi_line_names)
qed

lemma find_binding_name:
  "pi_names_ok st \<Longrightarrow> find_binding (ps_bindings st) nm = Some b \<Longrightarrow> ib_name b \<noteq> []"
  by (auto simp add: pi_names_ok_def find_binding_def find_Some_iff list_all_length)

lemma parse_pi_program_names:
  assumes "parse_pi_program lines ir0 = Inr ir"
  shows "kind ir = PROGRAM_PI_TEST \<and> numerator_var (pi ir) \<noteq> [] \<and>
    denominator_var (pi ir) \<noteq> [] \<and> scale_var (pi ir) \<noteq> []"
proof -
  from assms obtain st where st: "parse_pi_lines lines pi_scan_init = Inr st"
    and l: "lower_pi st ir0 = Inr ir"
    by (auto simp add: parse_pi_program_def split: sum.splits)
  have "pi_names_ok pi_scan_init" by (simp add: pi_names_ok_def pi_scan_init_def)
  from parse_pi_lines_names [OF this st] have ok: "pi_names_ok st" .
  from l show ?thesis
    by (auto simp add: lower_pi_def Let_def strncpy127_def split: if_splits option.splits
        dest!: find_binding_name [OF ok])
qed

lemma zero_denominator_rejected:
  "parse_pi_program lines ir0 = Inr ir \<Longrightarrow> denominator_value (pi ir) = 0 \<Longrightarrow>
   validate_program ir = Inl DenominatorIsZero"
  using parse_pi_program_names [of lines ir0 ir]
  by (simp add: validate_program_def validate_pi_def)

lemma parse_pi_lines_append:
  "parse_pi_lines (pre @ rest) st =
     (case parse_pi_lines pre st of Inl e \<Rightarrow> Inl e | Inr st' \<Rightarrow> parse_pi_lines rest st')"
  by (induction pre arbitrary: st) (auto split: sum.splits)

lemma second_multiplication_rejected:
  "parse_pi_lines pre pi_scan_init = Inr st \<Longrightarrow> have_mul st \<Longrightarrow> starts_with ''let '' l \<Longrightarrow>
   scan2_str l fmt_let_expr = Some (n, e) \<Longrightarrow> CHR ''*'' \<in> set (trim e) \<Longrightarrow>
   parse_pi_program (pre @ l # post) ir0 = Inl MultipleMultiplication"
  by (simp add: parse_pi_program_def parse_pi_lines_append parse_pi_line_def parse_pi_let_def
      Let_def)

lemma parse_loop_kind:
  "parse_loop_sum_program lines ir0 = Inr ir \<Longrightarrow> kind ir = PROGRAM_LOOP_SUM"
  by (auto simp add: parse_loop_sum_program_def lower_loop_def Let_def
      split: sum.splits if_splits option.splits prod.splits)

lemma parse_string_kind:
  "parse_string_program lines ir0 = Inr ir \<Longrightarrow> kind ir = PROGRAM_STRING"
  by (auto simp add: parse_string_program_def split: sum.splits)

lemma parse_source_pi:
  assumes "parse_source input initial_ir = Inr ir" and "kind ir = PROGRAM_PI_TEST"
  shows "\<exists>lines. parse_pi_program lines initial_ir = Inr ir"
proof -
  from assms(1) obtain lines where l: "parse_lines lines initial_ir = Inr ir"
    by (auto simp add: parse_source_def split: sum.splits)
  show ?thesis
  proof (cases "has_loop lines")
    case True
    with l have "parse_loop_sum_program lines initial_ir = Inr ir"
      by (simp add: parse_lines_def)
    from parse_loop_kind [OF this] assms(2) show ?thesis by simp
  next
    case nl: False
    show ?thesis
    proof (cases "has_arithmetic_chain lines")
      case True
      with nl l show ?thesis by (auto simp add: parse_lines_def)
    next
      case False
      with nl l have "parse_string_program lines initial_ir = Inr ir"
        by (auto simp add: parse_lines_def split: if_splits)
      from parse_string_kind [OF this] assms(2) show ?thesis by simp
    qed
  qed
qed

lemma strtoll_range: "strtoll s = Some (v, rest) \<Longrightarrow> LLONG_MIN \<le> v \<and> v \<le> LLONG_MAX"
  by (auto simp add: strtoll_def LLONG_MIN_def LLONG_MAX_def split: option.splits)




section \<open>Failures of the Pi-Approximation pipeline\<close>

text \<open>
  C7. When loading the program fails, in recognition or in validation,
  \<open>aurc_compile_file\<close> returns that error and leaves the output file as it was: the
  manifest writer is not reached and nothing is encoded. In particular a source
  recognized as a Pi program whose denominator binding is 0 fails with the
  denominator-is-zero error, and a Pi program in which a multiplication statement
  follows another fails with the multiple-multiplication error.
\<close>

theorem pi_failure_produces_no_manifest:
  "(load_program_ir input = Inl e \<longrightarrow> aurc_compile_file input prior = (Some e, prior)) \<and>
   (parse_source input initial_ir = Inr ir \<and> kind ir = PROGRAM_PI_TEST \<and>
    denominator_value (pi ir) = 0 \<longrightarrow>
      load_program_ir input = Inl DenominatorIsZero \<and>
      aurc_compile_file input prior = (Some DenominatorIsZero, prior)) \<and>
   (load_lines (fgets_lines 2048 input') [] = Inr (pre @ l # post) \<and>
    \<not> has_loop (pre @ l # post) \<and> CHR ''*'' \<in> set l \<and>
    parse_pi_lines pre pi_scan_init = Inr st \<and> have_mul st \<and> starts_with ''let '' l \<and>
    scan2_str l fmt_let_expr = Some (n, x) \<and> CHR ''*'' \<in> set (trim x) \<longrightarrow>
      load_program_ir input' = Inl MultipleMultiplication \<and>
      aurc_compile_file input' prior = (Some MultipleMultiplication, prior))"
proof (intro conjI impI)
  assume "load_program_ir input = Inl e"
  then show "aurc_compile_file input prior = (Some e, prior)"
    by (simp add: aurc_compile_file_def)
next
  assume a: "parse_source input initial_ir = Inr ir \<and> kind ir = PROGRAM_PI_TEST \<and>
    denominator_value (pi ir) = 0"
  then obtain lines where "parse_pi_program lines initial_ir = Inr ir"
    using parse_source_pi by blast
  with a have "validate_program ir = Inl DenominatorIsZero"
    using zero_denominator_rejected by blast
  with a show l: "load_program_ir input = Inl DenominatorIsZero"
    by (simp add: load_program_ir_def)
  then show "aurc_compile_file input prior = (Some DenominatorIsZero, prior)"
    by (simp add: aurc_compile_file_def)
next
  assume a: "load_lines (fgets_lines 2048 input') [] = Inr (pre @ l # post) \<and>
    \<not> has_loop (pre @ l # post) \<and> CHR ''*'' \<in> set l \<and>
    parse_pi_lines pre pi_scan_init = Inr st \<and> have_mul st \<and> starts_with ''let '' l \<and>
    scan2_str l fmt_let_expr = Some (n, x) \<and> CHR ''*'' \<in> set (trim x)"
  then have "has_arithmetic_chain (pre @ l # post)"
    by (auto simp add: has_arithmetic_chain_def)
  with a have "parse_lines (pre @ l # post) initial_ir =
      parse_pi_program (pre @ l # post) initial_ir"
    by (simp add: parse_lines_def)
  also have "\<dots> = Inl MultipleMultiplication"
    using a second_multiplication_rejected by blast
  finally show l: "load_program_ir input' = Inl MultipleMultiplication"
    using a by (simp add: load_program_ir_def parse_source_def)
  then show "aurc_compile_file input' prior = (Some MultipleMultiplication, prior)"
    by (simp add: aurc_compile_file_def)
qed

theorem pi_failure_produces_no_manifest_witness:
  "aurc_compile_file (concat (map ln example_zero_denominator)) None =
     (Some DenominatorIsZero, None) \<and>
   aurc_compile_file (concat (map ln example_two_multiplications)) None =
     (Some MultipleMultiplication, None)"
proof -
  have z: "load_program_ir (concat (map ln example_zero_denominator)) = Inl DenominatorIsZero"
    by code_simp
  have "load_lines (fgets_lines 2048 (concat (map ln example_two_multiplications))) [] =
      Inr ([''let num: int = 355;'', ''let den: int = 113;'', ''let scale: int = 100;'',
        ''let t: int = num * scale;''] @ ''let u: int = num * den;'' #
        [''let r: int = t / den;'', ''request service exit(r);'', ''return r;'']) \<and>
    \<not> has_loop ([''let num: int = 355;'', ''let den: int = 113;'', ''let scale: int = 100;'',
        ''let t: int = num * scale;''] @ ''let u: int = num * den;'' #
        [''let r: int = t / den;'', ''request service exit(r);'', ''return r;'']) \<and>
    CHR ''*'' \<in> set ''let u: int = num * den;'' \<and>
    parse_pi_lines [''let num: int = 355;'', ''let den: int = 113;'', ''let scale: int = 100;'',
        ''let t: int = num * scale;''] pi_scan_init =
      Inr (pi_scan_init\<lparr>ps_bindings := [\<lparr>ib_name = ''num'', ib_value = 355\<rparr>,
             \<lparr>ib_name = ''den'', ib_value = 113\<rparr>, \<lparr>ib_name = ''scale'', ib_value = 100\<rparr>],
           ps_pi := zero_pi_ir\<lparr>temp_var := ''t'', temp_lhs := ''num'', temp_rhs := ''scale''\<rparr>,
           have_mul := True\<rparr>) \<and>
    have_mul (pi_scan_init\<lparr>ps_bindings := [\<lparr>ib_name = ''num'', ib_value = 355\<rparr>,
             \<lparr>ib_name = ''den'', ib_value = 113\<rparr>, \<lparr>ib_name = ''scale'', ib_value = 100\<rparr>],
           ps_pi := zero_pi_ir\<lparr>temp_var := ''t'', temp_lhs := ''num'', temp_rhs := ''scale''\<rparr>,
           have_mul := True\<rparr>) \<and>
    starts_with ''let '' ''let u: int = num * den;'' \<and>
    scan2_str ''let u: int = num * den;'' fmt_let_expr = Some (''u'', ''num * den'') \<and>
    CHR ''*'' \<in> set (trim ''num * den'')"
    by code_simp
  with pi_failure_produces_no_manifest
    [where input' = "concat (map ln example_two_multiplications)"
      and pre = "[''let num: int = 355;'', ''let den: int = 113;'', ''let scale: int = 100;'',
        ''let t: int = num * scale;'']"
      and l = "''let u: int = num * den;''"
      and post = "[''let r: int = t / den;'', ''request service exit(r);'', ''return r;'']"
      and n = "''u''" and x = "''num * den''" and prior = None]
  have m: "aurc_compile_file (concat (map ln example_two_multiplications)) None =
     (Some MultipleMultiplication, None)"
    by blast
  from pi_failure_produces_no_manifest
    [where input = "concat (map ln example_zero_denominator)" and e = DenominatorIsZero
      and prior = None] z
  have "aurc_compile_file (concat (map ln example_zero_denominator)) None =
     (Some DenominatorIsZero, None)"
    by blast
  with m show ?thesis by simp
qed

section \<open>Integer literals of the Pi recognizer\<close>

lemma pi_literal_line:
  assumes "starts_with ''let '' l" and "scan2_str l fmt_let_expr = Some (nb, eb)"
    and "CHR ''*'' \<notin> set (trim eb)" and "CHR ''/'' \<notin> set (trim eb)"
    and "strtoll (trim eb) = Some (v, [])"
  shows "parse_pi_line st l =
    (if length (ps_bindings st) \<ge> 8 then Inl TooManyPiBindings
     else Inr (st\<lparr>ps_bindings := ps_bindings st @
                 [\<lparr>ib_name = strncpy127 (trim nb), ib_value = word_of_int v\<rparr>]\<rparr>))"
  using assms by (simp add: parse_pi_line_def parse_pi_let_def Let_def)

lemma congruent_stored_alike:
  "va mod 2 ^ 32 = vb mod 2 ^ 32 \<Longrightarrow> (word_of_int va :: 32 word) = word_of_int vb"
  by (simp add: word_of_int_eq_iff take_bit_eq_mod)

lemma pi_literal_lines_alike:
  assumes a1: "starts_with ''let '' la" and a2: "scan2_str la fmt_let_expr = Some (na, ea)"
    and a3: "CHR ''*'' \<notin> set (trim ea)" and a4: "CHR ''/'' \<notin> set (trim ea)"
    and a5: "strtoll (trim ea) = Some (va, [])"
    and b1: "starts_with ''let '' lb" and b2: "scan2_str lb fmt_let_expr = Some (nb, eb)"
    and b3: "CHR ''*'' \<notin> set (trim eb)" and b4: "CHR ''/'' \<notin> set (trim eb)"
    and b5: "strtoll (trim eb) = Some (vb, [])"
    and n: "trim na = trim nb" and m: "va mod 2 ^ 32 = vb mod 2 ^ 32"
  shows "parse_pi_line st la = parse_pi_line st lb"
proof -
  have w: "(word_of_int va :: 32 word) = word_of_int vb"
    using m by (rule congruent_stored_alike)
  show ?thesis
    by (simp only: pi_literal_line [OF a1 a2 a3 a4 a5] pi_literal_line [OF b1 b2 b3 b4 b5] n w)
qed

lemma pi_programs_alike:
  assumes "\<And>s. parse_pi_line s la = parse_pi_line s lb"
  shows "parse_pi_program (pre @ la # post) i = parse_pi_program (pre @ lb # post) i"
proof -
  have "parse_pi_lines (la # post) s = parse_pi_lines (lb # post) s" for s
    by (simp only: parse_pi_lines.simps assms)
  then have "parse_pi_lines (pre @ la # post) s = parse_pi_lines (pre @ lb # post) s" for s
    by (simp only: parse_pi_lines_append)
  then show ?thesis
    by (simp only: parse_pi_program_def)
qed

lemma pi_sources_alike:
  assumes x: "load_lines (fgets_lines 2048 ina) [] = Inr xs"
    and y: "load_lines (fgets_lines 2048 inb) [] = Inr ys"
    and xl: "\<not> has_loop xs" and xa: "has_arithmetic_chain xs"
    and yl: "\<not> has_loop ys" and ya: "has_arithmetic_chain ys"
    and p: "parse_pi_program xs initial_ir = parse_pi_program ys initial_ir"
  shows "aurc_compile_file ina prior = aurc_compile_file inb prior"
proof -
  have "parse_source ina initial_ir = parse_pi_program xs initial_ir"
    using xl xa by (simp only: parse_source_def parse_lines_def x sum.case if_True if_False)
  moreover have "parse_source inb initial_ir = parse_pi_program ys initial_ir"
    using yl ya by (simp only: parse_source_def parse_lines_def y sum.case if_True if_False)
  ultimately have "load_program_ir ina = load_program_ir inb"
    by (simp only: load_program_ir_def p)
  then show ?thesis
    by (simp only: aurc_compile_file_def)
qed

text \<open>
  C10 as the specification states it fails: a Pi program whose denominator literal is
  \<open>2^32\<close>, outside the 32-bit range, does not compile: the literal is stored as 0
  and validation fails with the denominator-is-zero error.
\<close>

theorem pi_wide_literal_does_not_compile_counterexample:
  "aurc_compile_file (concat (map ln example_denominator_wrap)) None =
     (Some DenominatorIsZero, None)"
  by code_simp

text \<open>
  C10, amended. A literal initializer of a Pi program is read by \<open>strtoll\<close>, a value
  within the 64-bit range, and stored as a 32-bit \<open>int\<close>: the binding holds the value
  modulo \<open>2^32\<close>, and the only failure of a literal binding is that of the ninth
  binding, never one for its size. A Pi program is therefore recognized, and compiled
  or refused, exactly as the program in which a literal is replaced by a literal for
  the same name with the same value modulo \<open>2^32\<close> (it fails where that program
  fails, as with a denominator that reduces to 0). The values the encoder checks are
  32-bit already, so its range check passes for numerator, denominator and scale of
  every IR, and \<open>emit_pi_manifest\<close> never fails.
\<close>

theorem pi_literal_truncated_to_32_bits:
  "(CHR ''*'' \<notin> set (trim expr_buf) \<and> CHR ''/'' \<notin> set (trim expr_buf) \<and>
    strtoll (trim expr_buf) = Some (v, []) \<longrightarrow>
      LLONG_MIN \<le> v \<and> v \<le> LLONG_MAX \<and>
      parse_pi_let st name_buf expr_buf =
        (if length (ps_bindings st) \<ge> 8 then Inl TooManyPiBindings
         else Inr (st\<lparr>ps_bindings := ps_bindings st @
                [\<lparr>ib_name = strncpy127 (trim name_buf), ib_value = word_of_int v\<rparr>]\<rparr>)) \<and>
      uint (word_of_int v :: 32 word) = v mod 2 ^ 32) \<and>
   (starts_with ''let '' la \<and> scan2_str la fmt_let_expr = Some (na, ea) \<and>
    CHR ''*'' \<notin> set (trim ea) \<and> CHR ''/'' \<notin> set (trim ea) \<and>
    strtoll (trim ea) = Some (va, []) \<and>
    starts_with ''let '' lb \<and> scan2_str lb fmt_let_expr = Some (nb, eb) \<and>
    CHR ''*'' \<notin> set (trim eb) \<and> CHR ''/'' \<notin> set (trim eb) \<and>
    strtoll (trim eb) = Some (vb, []) \<and>
    trim na = trim nb \<and> va mod 2 ^ 32 = vb mod 2 ^ 32 \<longrightarrow>
      parse_pi_line st la = parse_pi_line st lb \<and>
      parse_pi_program (pre @ la # post) ir0 = parse_pi_program (pre @ lb # post) ir0 \<and>
      (load_lines (fgets_lines 2048 ina) [] = Inr (pre @ la # post) \<and>
       load_lines (fgets_lines 2048 inb) [] = Inr (pre @ lb # post) \<and>
       \<not> has_loop (pre @ la # post) \<and> has_arithmetic_chain (pre @ la # post) \<and>
       \<not> has_loop (pre @ lb # post) \<and> has_arithmetic_chain (pre @ lb # post) \<longrightarrow>
         aurc_compile_file ina prior = aurc_compile_file inb prior)) \<and>
   \<not> ensure_signed_32_range (sint (numerator_value (pi ir))) \<and>
   \<not> ensure_signed_32_range (sint (denominator_value (pi ir))) \<and>
   \<not> ensure_signed_32_range (sint (scale_value (pi ir))) \<and>
   fst (emit_pi_manifest ir out flags) = None"
proof -
  have a: "CHR ''*'' \<notin> set (trim expr_buf) \<and> CHR ''/'' \<notin> set (trim expr_buf) \<and>
    strtoll (trim expr_buf) = Some (v, []) \<longrightarrow>
      LLONG_MIN \<le> v \<and> v \<le> LLONG_MAX \<and>
      parse_pi_let st name_buf expr_buf =
        (if length (ps_bindings st) \<ge> 8 then Inl TooManyPiBindings
         else Inr (st\<lparr>ps_bindings := ps_bindings st @
                [\<lparr>ib_name = strncpy127 (trim name_buf), ib_value = word_of_int v\<rparr>]\<rparr>)) \<and>
      uint (word_of_int v :: 32 word) = v mod 2 ^ 32"
    using strtoll_range [of "trim expr_buf" v "[]"]
    by (simp add: parse_pi_let_def Let_def uint_word_of_int)
  have b: "parse_pi_line st la = parse_pi_line st lb \<and>
      parse_pi_program (pre @ la # post) ir0 = parse_pi_program (pre @ lb # post) ir0 \<and>
      (load_lines (fgets_lines 2048 ina) [] = Inr (pre @ la # post) \<and>
       load_lines (fgets_lines 2048 inb) [] = Inr (pre @ lb # post) \<and>
       \<not> has_loop (pre @ la # post) \<and> has_arithmetic_chain (pre @ la # post) \<and>
       \<not> has_loop (pre @ lb # post) \<and> has_arithmetic_chain (pre @ lb # post) \<longrightarrow>
         aurc_compile_file ina prior = aurc_compile_file inb prior)"
    if h: "starts_with ''let '' la \<and> scan2_str la fmt_let_expr = Some (na, ea) \<and>
      CHR ''*'' \<notin> set (trim ea) \<and> CHR ''/'' \<notin> set (trim ea) \<and>
      strtoll (trim ea) = Some (va, []) \<and>
      starts_with ''let '' lb \<and> scan2_str lb fmt_let_expr = Some (nb, eb) \<and>
      CHR ''*'' \<notin> set (trim eb) \<and> CHR ''/'' \<notin> set (trim eb) \<and>
      strtoll (trim eb) = Some (vb, []) \<and>
      trim na = trim nb \<and> va mod 2 ^ 32 = vb mod 2 ^ 32"
  proof -
    have l: "parse_pi_line s la = parse_pi_line s lb" for s
      using h by (intro pi_literal_lines_alike [of la na ea va lb nb eb vb]) blast+
    have p: "parse_pi_program (pre @ la # post) i = parse_pi_program (pre @ lb # post) i" for i
      using l by (rule pi_programs_alike)
    have c: "load_lines (fgets_lines 2048 ina) [] = Inr (pre @ la # post) \<and>
       load_lines (fgets_lines 2048 inb) [] = Inr (pre @ lb # post) \<and>
       \<not> has_loop (pre @ la # post) \<and> has_arithmetic_chain (pre @ la # post) \<and>
       \<not> has_loop (pre @ lb # post) \<and> has_arithmetic_chain (pre @ lb # post) \<longrightarrow>
         aurc_compile_file ina prior = aurc_compile_file inb prior"
    proof
      assume k: "load_lines (fgets_lines 2048 ina) [] = Inr (pre @ la # post) \<and>
       load_lines (fgets_lines 2048 inb) [] = Inr (pre @ lb # post) \<and>
       \<not> has_loop (pre @ la # post) \<and> has_arithmetic_chain (pre @ la # post) \<and>
       \<not> has_loop (pre @ lb # post) \<and> has_arithmetic_chain (pre @ lb # post)"
      show "aurc_compile_file ina prior = aurc_compile_file inb prior"
      proof (rule pi_sources_alike)
        show "load_lines (fgets_lines 2048 ina) [] = Inr (pre @ la # post)"
          using k by (rule conjunct1)
        show "load_lines (fgets_lines 2048 inb) [] = Inr (pre @ lb # post)"
          using k by blast
        show "\<not> has_loop (pre @ la # post)" using k by blast
        show "has_arithmetic_chain (pre @ la # post)" using k by blast
        show "\<not> has_loop (pre @ lb # post)" using k by blast
        show "has_arithmetic_chain (pre @ lb # post)" using k by blast
        show "parse_pi_program (pre @ la # post) initial_ir =
          parse_pi_program (pre @ lb # post) initial_ir"
          by (rule p)
      qed
    qed
    show ?thesis
      by (rule conjI [OF l conjI [OF p c]])
  qed
  have c: "\<not> ensure_signed_32_range (sint (numerator_value (pi ir))) \<and>
   \<not> ensure_signed_32_range (sint (denominator_value (pi ir))) \<and>
   \<not> ensure_signed_32_range (sint (scale_value (pi ir))) \<and>
   fst (emit_pi_manifest ir out flags) = None"
    by (simp add: signed_32_range_ok emit_pi_manifest_def Let_def)
  from b have b': "starts_with ''let '' la \<and> scan2_str la fmt_let_expr = Some (na, ea) \<and>
      CHR ''*'' \<notin> set (trim ea) \<and> CHR ''/'' \<notin> set (trim ea) \<and>
      strtoll (trim ea) = Some (va, []) \<and>
      starts_with ''let '' lb \<and> scan2_str lb fmt_let_expr = Some (nb, eb) \<and>
      CHR ''*'' \<notin> set (trim eb) \<and> CHR ''/'' \<notin> set (trim eb) \<and>
      strtoll (trim eb) = Some (vb, []) \<and>
      trim na = trim nb \<and> va mod 2 ^ 32 = vb mod 2 ^ 32 \<longrightarrow>
      parse_pi_line st la = parse_pi_line st lb \<and>
      parse_pi_program (pre @ la # post) ir0 = parse_pi_program (pre @ lb # post) ir0 \<and>
      (load_lines (fgets_lines 2048 ina) [] = Inr (pre @ la # post) \<and>
       load_lines (fgets_lines 2048 inb) [] = Inr (pre @ lb # post) \<and>
       \<not> has_loop (pre @ la # post) \<and> has_arithmetic_chain (pre @ la # post) \<and>
       \<not> has_loop (pre @ lb # post) \<and> has_arithmetic_chain (pre @ lb # post) \<longrightarrow>
         aurc_compile_file ina prior = aurc_compile_file inb prior)"
    by (rule impI)
  show ?thesis
    by (rule conjI [OF a conjI [OF b' c]])
qed

theorem pi_literal_truncated_to_32_bits_witness:
  "scan2_str ''let scale: int = 4294967297;'' fmt_let_expr = Some (''scale'', ''4294967297'') \<and>
   strtoll (trim ''4294967297'') = Some (4294967297, []) \<and>
   parse_pi_let pi_scan_init ''scale'' ''4294967297'' =
     Inr (pi_scan_init\<lparr>ps_bindings := [\<lparr>ib_name = ''scale'', ib_value = 1\<rparr>]\<rparr>) \<and>
   aurc_compile_file (concat (map ln example_big)) None =
     aurc_compile_file (concat (map ln example_big_reduced)) None \<and>
   fst (aurc_compile_file (concat (map ln example_big_reduced)) None) = None"
proof -
  have a: "scan2_str ''let scale: int = 4294967297;'' fmt_let_expr =
      Some (''scale'', ''4294967297'')"
    by code_simp
  have b: "CHR ''*'' \<notin> set (trim ''4294967297'') \<and> CHR ''/'' \<notin> set (trim ''4294967297'') \<and>
      strtoll (trim ''4294967297'') = Some (4294967297, [])"
    by code_simp
  have c: "strncpy127 (trim ''scale'') = ''scale''"
    by code_simp
  have d: "fst (aurc_compile_file (concat (map ln example_big_reduced)) None) = None"
    by code_simp
  have e: "starts_with ''let '' ''let scale: int = 4294967297;'' \<and>
      starts_with ''let '' ''let scale: int = 1;'' \<and>
      scan2_str ''let scale: int = 1;'' fmt_let_expr = Some (''scale'', ''1'') \<and>
      CHR ''*'' \<notin> set (trim ''1'') \<and> CHR ''/'' \<notin> set (trim ''1'') \<and>
      strtoll (trim ''1'') = Some (1, []) \<and> trim ''scale'' = trim ''scale''"
    by code_simp
  have m: "(4294967297 :: int) mod 2 ^ 32 = 1 mod 2 ^ 32"
    by simp
  have f: "load_lines (fgets_lines 2048 (concat (map ln example_big))) [] =
      Inr ([''let num: int = 355;'', ''let den: int = 113;''] @
        ''let scale: int = 4294967297;'' #
        [''let t: int = num * scale;'', ''let r: int = t / den;'',
         ''request service exit(r);'', ''return r;'']) \<and>
    load_lines (fgets_lines 2048 (concat (map ln example_big_reduced))) [] =
      Inr ([''let num: int = 355;'', ''let den: int = 113;''] @
        ''let scale: int = 1;'' #
        [''let t: int = num * scale;'', ''let r: int = t / den;'',
         ''request service exit(r);'', ''return r;'']) \<and>
    \<not> has_loop ([''let num: int = 355;'', ''let den: int = 113;''] @
        ''let scale: int = 4294967297;'' #
        [''let t: int = num * scale;'', ''let r: int = t / den;'',
         ''request service exit(r);'', ''return r;'']) \<and>
    has_arithmetic_chain ([''let num: int = 355;'', ''let den: int = 113;''] @
        ''let scale: int = 4294967297;'' #
        [''let t: int = num * scale;'', ''let r: int = t / den;'',
         ''request service exit(r);'', ''return r;'']) \<and>
    \<not> has_loop ([''let num: int = 355;'', ''let den: int = 113;''] @
        ''let scale: int = 1;'' #
        [''let t: int = num * scale;'', ''let r: int = t / den;'',
         ''request service exit(r);'', ''return r;'']) \<and>
    has_arithmetic_chain ([''let num: int = 355;'', ''let den: int = 113;''] @
        ''let scale: int = 1;'' #
        [''let t: int = num * scale;'', ''let r: int = t / den;'',
         ''request service exit(r);'', ''return r;''])"
    by code_simp
  note t = pi_literal_truncated_to_32_bits
    [where expr_buf = "''4294967297''" and v = 4294967297 and st = pi_scan_init
      and name_buf = "''scale''"
      and la = "''let scale: int = 4294967297;''" and na = "''scale''"
      and ea = "''4294967297''" and va = 4294967297
      and lb = "''let scale: int = 1;''" and nb = "''scale''" and eb = "''1''" and vb = 1
      and pre = "[''let num: int = 355;'', ''let den: int = 113;'']"
      and post = "[''let t: int = num * scale;'', ''let r: int = t / den;'',
         ''request service exit(r);'', ''return r;'']"
      and ina = "concat (map ln example_big)"
      and inb = "concat (map ln example_big_reduced)" and prior = None]
  from t b
  have "parse_pi_let pi_scan_init ''scale'' ''4294967297'' =
     (if length (ps_bindings pi_scan_init) \<ge> 8 then Inl TooManyPiBindings
      else Inr (pi_scan_init\<lparr>ps_bindings := ps_bindings pi_scan_init @
               [\<lparr>ib_name = strncpy127 (trim ''scale''), ib_value = word_of_int 4294967297\<rparr>]\<rparr>))"
    by blast
  then have g: "parse_pi_let pi_scan_init ''scale'' ''4294967297'' =
     Inr (pi_scan_init\<lparr>ps_bindings := [\<lparr>ib_name = ''scale'', ib_value = 1\<rparr>]\<rparr>)"
    by (simp add: c pi_scan_init_def)
  from t a b e m f
  have "aurc_compile_file (concat (map ln example_big)) None =
     aurc_compile_file (concat (map ln example_big_reduced)) None"
    by blast
  with a b d g show ?thesis by simp
qed

section \<open>The exit code of a String program\<close>










end
